theory Spec2Isabelle
  imports Main "HOL-Library.Word"
begin

section \<open>The NFT marketplace contract (examples/good/NFTMarketplace.ts)\<close>

text \<open>
  A shallow embedding of the class \<open>NFTMarketplace\<close>. Every method takes the contract
  storage and returns its result together with the storage as it stands when the method
  returns or throws: a \<open>throw new Revert(msg)\<close> is the value \<open>Inl (Revert msg)\<close>, and the
  writes made before the throw are still in the returned storage, because the contract
  code itself never undoes a write.
\<close>

subsection \<open>Values\<close>

text \<open>
  \<open>u256\<close> is an unsigned 256-bit integer. An \<open>Address\<close> is a 32-byte array; it is
  represented by the 256-bit number its bytes spell in big-endian order, which is what
  \<open>addressToU256\<close> (\<open>u256.fromUint8ArrayBE\<close>) computes and \<open>u256ToAddress\<close> inverts.
  \<open>addr.isZero()\<close> is \<open>addr = 0\<close> and \<open>a.equals(b)\<close> is \<open>a = b\<close>.
\<close>

type_synonym u256 = "256 word"
type_synonym Address = "256 word"

definition addressToU256 :: "Address \<Rightarrow> u256" where
  "addressToU256 addr = addr"

definition u256ToAddress :: "u256 \<Rightarrow> Address" where
  "u256ToAddress val = val"

datatype Revert = Revert string

text \<open>The seven event classes of \<open>events.ts\<close>, with the fields their constructors write.\<close>

datatype NetEvent =
    ListingCreatedEvent u256 Address u256 Address u256
  | ListingCancelledEvent u256
  | ListingSoldEvent u256 Address u256
  | BidPlacedEvent u256 Address u256 Address u256
  | BidCancelledEvent u256
  | BidAcceptedEvent u256 Address
  | CollectionRegisteredEvent Address u256

text \<open>What a method writes into its \<open>BytesWriter\<close>, in order.\<close>

datatype Written = U256 u256 | Boolean bool | Addr Address

type_synonym BytesWriter = "Written list"

subsection \<open>Storage\<close>

text \<open>
  One field per stored variable of the class. A \<open>StoredMapU256\<close> or \<open>AddressMemoryMap\<close>
  is a total function: a key never written reads as zero. The storage pointers come from
  \<open>Blockchain.nextPointer\<close> and are pairwise distinct, so the maps are separate fields.
  \<open>events\<close> is the log that \<open>emitEvent\<close> appends to.
\<close>

record NFTMarketplace =
  nextListingId :: u256
  listingCollectionMap :: "u256 \<Rightarrow> u256"
  listingTokenIdMap :: "u256 \<Rightarrow> u256"
  listingSellerMap :: "u256 \<Rightarrow> u256"
  listingPriceMap :: "u256 \<Rightarrow> u256"
  listingActiveMap :: "u256 \<Rightarrow> u256"
  nextBidId :: u256
  bidCollectionMap :: "u256 \<Rightarrow> u256"
  bidTokenIdMap :: "u256 \<Rightarrow> u256"
  bidBidderMap :: "u256 \<Rightarrow> u256"
  bidAmountMap :: "u256 \<Rightarrow> u256"
  bidActiveMap :: "u256 \<Rightarrow> u256"
  collectionRoyaltyBpsMap :: "Address \<Rightarrow> u256"
  collectionRoyaltyRecipientMap :: "u256 \<Rightarrow> u256"
  collectionRegisteredMap :: "Address \<Rightarrow> u256"
  platformFeeBps :: u256
  platformFeeRecipient :: Address
  totalVolume :: u256
  totalListings :: u256
  events :: "NetEvent list"

definition BPS_DENOMINATOR :: u256 where "BPS_DENOMINATOR = 10000"
definition MAX_ROYALTY_BPS :: u256 where "MAX_ROYALTY_BPS = 1000"
definition MAX_PLATFORM_FEE_BPS :: u256 where "MAX_PLATFORM_FEE_BPS = 500"
definition ACTIVE :: u256 where "ACTIVE = 1"
definition INACTIVE :: u256 where "INACTIVE = 0"

text \<open>The storage of a contract that has not been deployed yet: every slot reads zero.\<close>

definition emptyStorage :: NFTMarketplace where
  "emptyStorage = \<lparr>
     nextListingId = 0,
     listingCollectionMap = (\<lambda>_. 0), listingTokenIdMap = (\<lambda>_. 0),
     listingSellerMap = (\<lambda>_. 0), listingPriceMap = (\<lambda>_. 0),
     listingActiveMap = (\<lambda>_. 0),
     nextBidId = 0,
     bidCollectionMap = (\<lambda>_. 0), bidTokenIdMap = (\<lambda>_. 0),
     bidBidderMap = (\<lambda>_. 0), bidAmountMap = (\<lambda>_. 0),
     bidActiveMap = (\<lambda>_. 0),
     collectionRoyaltyBpsMap = (\<lambda>_. 0),
     collectionRoyaltyRecipientMap = (\<lambda>_. 0),
     collectionRegisteredMap = (\<lambda>_. 0),
     platformFeeBps = 0, platformFeeRecipient = 0,
     totalVolume = 0, totalListings = 0,
     events = [] \<rparr>"

subsection \<open>The runtime the contract calls\<close>

text \<open>
  The transaction and contract identities the runtime provides: \<open>Blockchain.tx.sender\<close>,
  \<open>this.address\<close> and the deployer that \<open>onlyDeployer\<close> compares with.
\<close>

record Env =
  tx_sender :: Address
  contract_address :: Address
  contractDeployer :: Address

text \<open>
  The calldata of a cross-contract call: the selector (one constructor per selector the
  contract encodes) and the arguments written after it.
\<close>

datatype Calldata =
    ownerOf u256
  | isApprovedForAll Address Address
  | safeTransferFrom Address Address u256

text \<open>
  A \<open>CallResult\<close> has the flag \<open>success\<close> and the response \<open>data\<close>. The response is
  represented by what the two readers the contract uses return on it.
\<close>

record CallResult =
  success :: bool
  readAddress :: Address
  readBoolean :: bool

text \<open>
  \<open>Blockchain.call(target, calldata)\<close>. The called collection is an external contract,
  so its answer is a parameter of the model. It runs while the marketplace storage is as
  the caller left it, so the answer may depend on that storage: the storage given to the
  call is the storage at the moment the call is issued. The call does not write the
  marketplace storage (no re-entrant call is modelled).
\<close>

type_synonym Blockchain_call = "NFTMarketplace \<Rightarrow> Address \<Rightarrow> Calldata \<Rightarrow> CallResult"

text \<open>
  Modelled from the spec: \<open>SafeMath.add\<close> belongs to the runtime package and is not
  among the sources. Section 4.4 and section 7: an addition that would exceed the numeric
  range fails the whole call (\<open>Overflow\<close>) rather than wrap or saturate.
\<close>

definition SafeMath_add :: "u256 \<Rightarrow> u256 \<Rightarrow> Revert + u256" where
  "SafeMath_add a b =
     (if unat a + unat b < 2 ^ 256 then Inr (a + b)
      else Inl (Revert ''SafeMath: addition overflow''))"

text \<open>
  Modelled from the spec: \<open>onlyDeployer\<close> is a method of the runtime base class
  \<open>OP_NET\<close>, which is not among the sources. Section 4.3 and 4.5: the call fails
  (\<open>Unauthorized\<close>) unless the caller is the platform administrator.
\<close>

definition onlyDeployer :: "Env \<Rightarrow> Address \<Rightarrow> Revert + unit" where
  "onlyDeployer env caller =
     (if caller = contractDeployer env then Inr ()
      else Inl (Revert ''Only deployer can call this method''))"

text \<open>
  Modelled from the spec: \<open>emitEvent\<close> is a method of the runtime base class as well.
  Section 6: the events form an append-only log.
\<close>

definition emitEvent :: "NFTMarketplace \<Rightarrow> NetEvent \<Rightarrow> NFTMarketplace" where
  "emitEvent s e = s\<lparr>events := events s @ [e]\<rparr>"

subsection \<open>Remote verification and transfer\<close>

definition verifyOwnership ::
  "Blockchain_call \<Rightarrow> NFTMarketplace \<Rightarrow> Address \<Rightarrow> u256 \<Rightarrow> Address \<Rightarrow> Revert + unit" where
  "verifyOwnership call s collection tokenId expectedOwner =
     (let result = call s collection (ownerOf tokenId) in
      if \<not> success result then Inl (Revert ''ownerOf call failed'')
      else let ownerAddress = readAddress result in
           if ownerAddress \<noteq> expectedOwner then Inl (Revert ''Caller is not the token owner'')
           else Inr ())"

definition verifyApproval ::
  "Blockchain_call \<Rightarrow> Env \<Rightarrow> NFTMarketplace \<Rightarrow> Address \<Rightarrow> Address \<Rightarrow> Revert + unit" where
  "verifyApproval call env s collection owner =
     (let result = call s collection (isApprovedForAll owner (contract_address env)) in
      if \<not> success result then Inl (Revert ''isApprovedForAll call failed'')
      else let approved = readBoolean result in
           if \<not> approved then Inl (Revert ''Marketplace not approved for transfers'')
           else Inr ())"

definition executeNFTTransfer ::
  "Blockchain_call \<Rightarrow> NFTMarketplace \<Rightarrow> Address \<Rightarrow> Address \<Rightarrow> Address \<Rightarrow> u256 \<Rightarrow> Revert + unit" where
  "executeNFTTransfer call s collection from to tokenId =
     (let result = call s collection (safeTransferFrom from to tokenId) in
      if \<not> success result then Inl (Revert ''NFT transfer failed'')
      else Inr ())"

definition requireActiveListing :: "NFTMarketplace \<Rightarrow> u256 \<Rightarrow> Revert + unit" where
  "requireActiveListing s listingId =
     (let currentNextId = nextListingId s in
      if listingId \<ge> currentNextId \<or> listingId = 0 then Inl (Revert ''Listing does not exist'')
      else let active = listingActiveMap s listingId in
           if active = INACTIVE then Inl (Revert ''Listing is not active'')
           else Inr ())"

definition requireActiveBid :: "NFTMarketplace \<Rightarrow> u256 \<Rightarrow> Revert + unit" where
  "requireActiveBid s bidId =
     (let currentNextId = nextBidId s in
      if bidId \<ge> currentNextId \<or> bidId = 0 then Inl (Revert ''Bid does not exist'')
      else let active = bidActiveMap s bidId in
           if active = INACTIVE then Inl (Revert ''Bid is not active'')
           else Inr ())"

subsection \<open>Deployment\<close>

definition onDeployment ::
  "NFTMarketplace \<Rightarrow> Address \<Rightarrow> u256 \<Rightarrow> (Revert + unit) \<times> NFTMarketplace" where
  "onDeployment s feeRecipient feeBps =
     (if feeRecipient = 0 then (Inl (Revert ''Invalid fee recipient''), s)
      else if feeBps > MAX_PLATFORM_FEE_BPS then (Inl (Revert ''Fee exceeds maximum''), s)
      else (Inr (),
            s\<lparr>platformFeeRecipient := feeRecipient,
              platformFeeBps := feeBps,
              nextListingId := 1,
              nextBidId := 1\<rparr>))"

subsection \<open>Listings\<close>

definition listNFT ::
  "Blockchain_call \<Rightarrow> Env \<Rightarrow> NFTMarketplace \<Rightarrow> Address \<Rightarrow> u256 \<Rightarrow> u256
     \<Rightarrow> (Revert + BytesWriter) \<times> NFTMarketplace" where
  "listNFT call env s collectionAddr tokenId price =
     (let sender = tx_sender env in
      if collectionAddr = 0 then (Inl (Revert ''Invalid collection address''), s)
      else if price = 0 then (Inl (Revert ''Price must be greater than zero''), s)
      else case verifyOwnership call s collectionAddr tokenId sender of
        Inl e \<Rightarrow> (Inl e, s)
      | Inr _ \<Rightarrow>
      (case verifyApproval call env s collectionAddr sender of
        Inl e \<Rightarrow> (Inl e, s)
      | Inr _ \<Rightarrow>
      (let listingId = nextListingId s in
       case SafeMath_add listingId 1 of
        Inl e \<Rightarrow> (Inl e, s)
      | Inr n \<Rightarrow>
      (let s1 = s\<lparr>nextListingId := n\<rparr>;
           s2 = s1\<lparr>listingCollectionMap :=
                    (listingCollectionMap s1)(listingId := addressToU256 collectionAddr)\<rparr>;
           s3 = s2\<lparr>listingTokenIdMap := (listingTokenIdMap s2)(listingId := tokenId)\<rparr>;
           s4 = s3\<lparr>listingSellerMap := (listingSellerMap s3)(listingId := addressToU256 sender)\<rparr>;
           s5 = s4\<lparr>listingPriceMap := (listingPriceMap s4)(listingId := price)\<rparr>;
           s6 = s5\<lparr>listingActiveMap := (listingActiveMap s5)(listingId := ACTIVE)\<rparr>
       in case SafeMath_add (totalListings s6) 1 of
        Inl e \<Rightarrow> (Inl e, s6)
      | Inr t \<Rightarrow>
      (let s7 = s6\<lparr>totalListings := t\<rparr>;
           s8 = emitEvent s7 (ListingCreatedEvent listingId collectionAddr tokenId sender price)
       in (Inr [U256 listingId], s8))))))"

definition cancelListing ::
  "Env \<Rightarrow> NFTMarketplace \<Rightarrow> u256 \<Rightarrow> (Revert + BytesWriter) \<times> NFTMarketplace" where
  "cancelListing env s listingId =
     (let sender = tx_sender env in
      case requireActiveListing s listingId of
        Inl e \<Rightarrow> (Inl e, s)
      | Inr _ \<Rightarrow>
      (let sellerU256 = listingSellerMap s listingId;
           seller = u256ToAddress sellerU256
       in if sender \<noteq> seller then (Inl (Revert ''Only seller can cancel''), s)
          else
            (let s1 = s\<lparr>listingActiveMap := (listingActiveMap s)(listingId := INACTIVE)\<rparr>;
                 s2 = emitEvent s1 (ListingCancelledEvent listingId)
             in (Inr [Boolean True], s2))))"

definition buyNFT ::
  "Blockchain_call \<Rightarrow> Env \<Rightarrow> NFTMarketplace \<Rightarrow> u256
     \<Rightarrow> (Revert + BytesWriter) \<times> NFTMarketplace" where
  "buyNFT call env s listingId =
     (let buyer = tx_sender env in
      case requireActiveListing s listingId of
        Inl e \<Rightarrow> (Inl e, s)
      | Inr _ \<Rightarrow>
      (let collectionAddr = u256ToAddress (listingCollectionMap s listingId);
           tokenId = listingTokenIdMap s listingId;
           seller = u256ToAddress (listingSellerMap s listingId);
           price = listingPriceMap s listingId
       in if buyer = seller then (Inl (Revert ''Buyer cannot be seller''), s)
          else
            (let s1 = s\<lparr>listingActiveMap := (listingActiveMap s)(listingId := INACTIVE)\<rparr>
             in case SafeMath_add (totalVolume s1) price of
               Inl e \<Rightarrow> (Inl e, s1)
             | Inr v \<Rightarrow>
             (let s2 = s1\<lparr>totalVolume := v\<rparr>
              in case executeNFTTransfer call s2 collectionAddr seller buyer tokenId of
                Inl e \<Rightarrow> (Inl e, s2)
              | Inr _ \<Rightarrow>
              (let s3 = emitEvent s2 (ListingSoldEvent listingId buyer price)
               in (Inr [Boolean True], s3))))))"

subsection \<open>Bids\<close>

definition placeBid ::
  "Env \<Rightarrow> NFTMarketplace \<Rightarrow> Address \<Rightarrow> u256 \<Rightarrow> u256
     \<Rightarrow> (Revert + BytesWriter) \<times> NFTMarketplace" where
  "placeBid env s collectionAddr tokenId bidAmountSatoshis =
     (let sender = tx_sender env in
      if collectionAddr = 0 then (Inl (Revert ''Invalid collection address''), s)
      else if bidAmountSatoshis = 0 then
        (Inl (Revert ''Bid amount must be greater than zero''), s)
      else
      (let bidId = nextBidId s in
       case SafeMath_add bidId 1 of
        Inl e \<Rightarrow> (Inl e, s)
      | Inr n \<Rightarrow>
      (let s1 = s\<lparr>nextBidId := n\<rparr>;
           s2 = s1\<lparr>bidCollectionMap :=
                    (bidCollectionMap s1)(bidId := addressToU256 collectionAddr)\<rparr>;
           s3 = s2\<lparr>bidTokenIdMap := (bidTokenIdMap s2)(bidId := tokenId)\<rparr>;
           s4 = s3\<lparr>bidBidderMap := (bidBidderMap s3)(bidId := addressToU256 sender)\<rparr>;
           s5 = s4\<lparr>bidAmountMap := (bidAmountMap s4)(bidId := bidAmountSatoshis)\<rparr>;
           s6 = s5\<lparr>bidActiveMap := (bidActiveMap s5)(bidId := ACTIVE)\<rparr>;
           s7 = emitEvent s6 (BidPlacedEvent bidId collectionAddr tokenId sender bidAmountSatoshis)
       in (Inr [U256 bidId], s7))))"

definition cancelBid ::
  "Env \<Rightarrow> NFTMarketplace \<Rightarrow> u256 \<Rightarrow> (Revert + BytesWriter) \<times> NFTMarketplace" where
  "cancelBid env s bidId =
     (let sender = tx_sender env in
      case requireActiveBid s bidId of
        Inl e \<Rightarrow> (Inl e, s)
      | Inr _ \<Rightarrow>
      (let bidderU256 = bidBidderMap s bidId;
           bidder = u256ToAddress bidderU256
       in if sender \<noteq> bidder then (Inl (Revert ''Only bidder can cancel''), s)
          else
            (let s1 = s\<lparr>bidActiveMap := (bidActiveMap s)(bidId := INACTIVE)\<rparr>;
                 s2 = emitEvent s1 (BidCancelledEvent bidId)
             in (Inr [Boolean True], s2))))"

definition acceptBid ::
  "Blockchain_call \<Rightarrow> Env \<Rightarrow> NFTMarketplace \<Rightarrow> u256
     \<Rightarrow> (Revert + BytesWriter) \<times> NFTMarketplace" where
  "acceptBid call env s bidId =
     (let sender = tx_sender env in
      case requireActiveBid s bidId of
        Inl e \<Rightarrow> (Inl e, s)
      | Inr _ \<Rightarrow>
      (let collectionAddr = u256ToAddress (bidCollectionMap s bidId);
           tokenId = bidTokenIdMap s bidId;
           bidder = u256ToAddress (bidBidderMap s bidId);
           amount = bidAmountMap s bidId
       in case verifyOwnership call s collectionAddr tokenId sender of
            Inl e \<Rightarrow> (Inl e, s)
          | Inr _ \<Rightarrow>
            (let s1 = s\<lparr>bidActiveMap := (bidActiveMap s)(bidId := INACTIVE)\<rparr>
             in case SafeMath_add (totalVolume s1) amount of
               Inl e \<Rightarrow> (Inl e, s1)
             | Inr v \<Rightarrow>
             (let s2 = s1\<lparr>totalVolume := v\<rparr>
              in case executeNFTTransfer call s2 collectionAddr sender bidder tokenId of
                Inl e \<Rightarrow> (Inl e, s2)
              | Inr _ \<Rightarrow>
              (let s3 = emitEvent s2 (BidAcceptedEvent bidId sender)
               in (Inr [Boolean True], s3))))))"

subsection \<open>Administration\<close>

definition registerCollection ::
  "Env \<Rightarrow> NFTMarketplace \<Rightarrow> Address \<Rightarrow> u256 \<Rightarrow> Address
     \<Rightarrow> (Revert + BytesWriter) \<times> NFTMarketplace" where
  "registerCollection env s collectionAddr royaltyBps royaltyRecipient =
     (case onlyDeployer env (tx_sender env) of
        Inl e \<Rightarrow> (Inl e, s)
      | Inr _ \<Rightarrow>
      if collectionAddr = 0 then (Inl (Revert ''Invalid collection address''), s)
      else if royaltyBps > MAX_ROYALTY_BPS then (Inl (Revert ''Royalty exceeds maximum 10%''), s)
      else if royaltyRecipient = 0 then (Inl (Revert ''Invalid royalty recipient''), s)
      else
      (let s1 = s\<lparr>collectionRegisteredMap := (collectionRegisteredMap s)(collectionAddr := 1)\<rparr>;
           s2 = s1\<lparr>collectionRoyaltyBpsMap :=
                    (collectionRoyaltyBpsMap s1)(collectionAddr := royaltyBps)\<rparr>;
           collectionKey = addressToU256 collectionAddr;
           s3 = s2\<lparr>collectionRoyaltyRecipientMap :=
                    (collectionRoyaltyRecipientMap s2)
                      (collectionKey := addressToU256 royaltyRecipient)\<rparr>;
           s4 = emitEvent s3 (CollectionRegisteredEvent collectionAddr royaltyBps)
       in (Inr [Boolean True], s4)))"

definition setPlatformFee ::
  "Env \<Rightarrow> NFTMarketplace \<Rightarrow> u256 \<Rightarrow> (Revert + BytesWriter) \<times> NFTMarketplace" where
  "setPlatformFee env s newFeeBps =
     (case onlyDeployer env (tx_sender env) of
        Inl e \<Rightarrow> (Inl e, s)
      | Inr _ \<Rightarrow>
      if newFeeBps > MAX_PLATFORM_FEE_BPS then (Inl (Revert ''Fee exceeds maximum 5%''), s)
      else (Inr [Boolean True], s\<lparr>platformFeeBps := newFeeBps\<rparr>))"

definition setPlatformFeeRecipient ::
  "Env \<Rightarrow> NFTMarketplace \<Rightarrow> Address \<Rightarrow> (Revert + BytesWriter) \<times> NFTMarketplace" where
  "setPlatformFeeRecipient env s newRecipient =
     (case onlyDeployer env (tx_sender env) of
        Inl e \<Rightarrow> (Inl e, s)
      | Inr _ \<Rightarrow>
      if newRecipient = 0 then (Inl (Revert ''Invalid recipient address''), s)
      else (Inr [Boolean True], s\<lparr>platformFeeRecipient := newRecipient\<rparr>))"

definition updateRoyalty ::
  "Env \<Rightarrow> NFTMarketplace \<Rightarrow> Address \<Rightarrow> u256 \<Rightarrow> Address
     \<Rightarrow> (Revert + BytesWriter) \<times> NFTMarketplace" where
  "updateRoyalty env s collectionAddr newBps newRecipient =
     (case onlyDeployer env (tx_sender env) of
        Inl e \<Rightarrow> (Inl e, s)
      | Inr _ \<Rightarrow>
      (let isRegistered = collectionRegisteredMap s collectionAddr in
       if isRegistered = 0 then (Inl (Revert ''Collection not registered''), s)
       else if newBps > MAX_ROYALTY_BPS then (Inl (Revert ''Royalty exceeds maximum 10%''), s)
       else if newRecipient = 0 then (Inl (Revert ''Invalid royalty recipient''), s)
       else
       (let s1 = s\<lparr>collectionRoyaltyBpsMap :=
                     (collectionRoyaltyBpsMap s)(collectionAddr := newBps)\<rparr>;
            collectionKey = addressToU256 collectionAddr;
            s2 = s1\<lparr>collectionRoyaltyRecipientMap :=
                     (collectionRoyaltyRecipientMap s1)
                       (collectionKey := addressToU256 newRecipient)\<rparr>
        in (Inr [Boolean True], s2))))"

subsection \<open>Read operations\<close>

definition getListing :: "NFTMarketplace \<Rightarrow> u256 \<Rightarrow> (Revert + BytesWriter) \<times> NFTMarketplace" where
  "getListing s listingId =
     (let collectionU256 = listingCollectionMap s listingId;
          tokenId = listingTokenIdMap s listingId;
          sellerU256 = listingSellerMap s listingId;
          price = listingPriceMap s listingId;
          active = listingActiveMap s listingId
      in (Inr [U256 collectionU256, U256 tokenId, U256 sellerU256, U256 price, U256 active], s))"

definition getBid :: "NFTMarketplace \<Rightarrow> u256 \<Rightarrow> (Revert + BytesWriter) \<times> NFTMarketplace" where
  "getBid s bidId =
     (let collectionU256 = bidCollectionMap s bidId;
          tokenId = bidTokenIdMap s bidId;
          bidderU256 = bidBidderMap s bidId;
          amount = bidAmountMap s bidId;
          active = bidActiveMap s bidId
      in (Inr [U256 collectionU256, U256 tokenId, U256 bidderU256, U256 amount, U256 active], s))"

definition getCollectionInfo ::
  "NFTMarketplace \<Rightarrow> Address \<Rightarrow> (Revert + BytesWriter) \<times> NFTMarketplace" where
  "getCollectionInfo s collectionAddr =
     (let isRegistered = collectionRegisteredMap s collectionAddr;
          royaltyBps = collectionRoyaltyBpsMap s collectionAddr;
          collectionKey = addressToU256 collectionAddr;
          recipientU256 = collectionRoyaltyRecipientMap s collectionKey
      in (Inr [U256 isRegistered, U256 royaltyBps, U256 recipientU256], s))"

definition getPlatformInfo :: "NFTMarketplace \<Rightarrow> (Revert + BytesWriter) \<times> NFTMarketplace" where
  "getPlatformInfo s =
     (let feeBps = platformFeeBps s;
          recipient = platformFeeRecipient s;
          volume = totalVolume s;
          listings = totalListings s
      in (Inr [U256 feeBps, Addr recipient, U256 volume, U256 listings], s))"

subsection \<open>Dispatch\<close>

text \<open>
  A call of the contract: the selector \<open>execute\<close> switches on, with the arguments the
  handler reads from the calldata. \<open>OtherMethod\<close> is any selector that falls to the
  \<open>default\<close> branch, \<open>super.execute\<close>; the base class is not among the sources and writes
  none of the marketplace fields, so that branch is a revert that leaves the storage as
  it is.
\<close>

datatype Method =
    M_listNFT Address u256 u256
  | M_cancelListing u256
  | M_buyNFT u256
  | M_placeBid Address u256 u256
  | M_cancelBid u256
  | M_acceptBid u256
  | M_registerCollection Address u256 Address
  | M_setPlatformFee u256
  | M_setPlatformFeeRecipient Address
  | M_updateRoyalty Address u256 Address
  | M_getListing u256
  | M_getBid u256
  | M_getCollectionInfo Address
  | M_getPlatformInfo
  | OtherMethod

fun execute ::
  "Blockchain_call \<Rightarrow> Env \<Rightarrow> NFTMarketplace \<Rightarrow> Method
     \<Rightarrow> (Revert + BytesWriter) \<times> NFTMarketplace" where
  "execute call env s (M_listNFT c t p) = listNFT call env s c t p"
| "execute call env s (M_cancelListing i) = cancelListing env s i"
| "execute call env s (M_buyNFT i) = buyNFT call env s i"
| "execute call env s (M_placeBid c t a) = placeBid env s c t a"
| "execute call env s (M_cancelBid i) = cancelBid env s i"
| "execute call env s (M_acceptBid i) = acceptBid call env s i"
| "execute call env s (M_registerCollection c b r) = registerCollection env s c b r"
| "execute call env s (M_setPlatformFee b) = setPlatformFee env s b"
| "execute call env s (M_setPlatformFeeRecipient r) = setPlatformFeeRecipient env s r"
| "execute call env s (M_updateRoyalty c b r) = updateRoyalty env s c b r"
| "execute call env s (M_getListing i) = getListing s i"
| "execute call env s (M_getBid i) = getBid s i"
| "execute call env s (M_getCollectionInfo c) = getCollectionInfo s c"
| "execute call env s M_getPlatformInfo = getPlatformInfo s"
| "execute call env s OtherMethod = (Inl (Revert ''Method not found''), s)"

subsection \<open>Runs of the contract\<close>

text \<open>
  One transaction: who calls (\<open>Env\<close>), how the external collections answer during it,
  and the method called.
\<close>

type_synonym Tx = "Blockchain_call \<times> Env \<times> Method"

text \<open>
  \<open>runAll\<close> threads the storage through a list of transactions, whatever each one
  returns. A transaction that throws leaves the storage it had reached; the storage it
  started from is the storage before it, of which every property below holds as well.
\<close>

fun runAll :: "NFTMarketplace \<Rightarrow> Tx list \<Rightarrow> NFTMarketplace" where
  "runAll s [] = s"
| "runAll s ((call, env, m) # txs) = runAll (snd (execute call env s m)) txs"

text \<open>
  The storages a deployed contract can be in: the one a successful deployment leaves,
  and every storage a call leaves, whether the call returns or throws.
\<close>

inductive reachable :: "NFTMarketplace \<Rightarrow> bool" where
  deployed: "onDeployment emptyStorage feeRecipient feeBps = (Inr (), s) \<Longrightarrow> reachable s"
| called: "reachable s \<Longrightarrow> execute call env s m = (r, s') \<Longrightarrow> reachable s'"

subsection \<open>A concrete run\<close>

text \<open>
  A deployment (fee recipient 1, fee 250 bps, deployer 1, marketplace address 99), the
  seller 10 listing token 7 of collection 5 at price 1000, and the bidder 11 bidding 900
  on the same token. \<open>exCallOk\<close> is a collection that confirms the seller's ownership
  and approval and moves tokens; \<open>exCallTransferFails\<close> confirms both and refuses the
  transfer; \<open>exCallDenies\<close> fails both checks and moves tokens.
\<close>

definition exDeployed :: NFTMarketplace where
  "exDeployed = emptyStorage\<lparr>platformFeeRecipient := 1, platformFeeBps := 250,
     nextListingId := 1, nextBidId := 1\<rparr>"

definition exSeller :: Env where
  "exSeller = \<lparr>tx_sender = 10, contract_address = 99, contractDeployer = 1\<rparr>"
definition exBuyer :: Env where
  "exBuyer = \<lparr>tx_sender = 11, contract_address = 99, contractDeployer = 1\<rparr>"
definition exAdmin :: Env where
  "exAdmin = \<lparr>tx_sender = 1, contract_address = 99, contractDeployer = 1\<rparr>"

definition exCallOk :: Blockchain_call where
  "exCallOk = (\<lambda>s target cd. \<lparr>success = True, readAddress = 10, readBoolean = True\<rparr>)"

definition exCallTransferFails :: Blockchain_call where
  "exCallTransferFails = (\<lambda>s target cd.
     case cd of safeTransferFrom f t k \<Rightarrow> \<lparr>success = False, readAddress = 0, readBoolean = False\<rparr>
     | _ \<Rightarrow> \<lparr>success = True, readAddress = 10, readBoolean = True\<rparr>)"

definition exCallDenies :: Blockchain_call where
  "exCallDenies = (\<lambda>s target cd.
     case cd of safeTransferFrom f t k \<Rightarrow> \<lparr>success = True, readAddress = 10, readBoolean = True\<rparr>
     | _ \<Rightarrow> \<lparr>success = False, readAddress = 0, readBoolean = False\<rparr>)"

definition exListed :: NFTMarketplace where
  "exListed = exDeployed\<lparr>nextListingId := 2,
     listingCollectionMap := (\<lambda>_. 0)(1 := 5),
     listingTokenIdMap := (\<lambda>_. 0)(1 := 7),
     listingSellerMap := (\<lambda>_. 0)(1 := 10),
     listingPriceMap := (\<lambda>_. 0)(1 := 1000),
     listingActiveMap := (\<lambda>_. 0)(1 := 1),
     totalListings := 1,
     events := [ListingCreatedEvent 1 5 7 10 1000]\<rparr>"

definition exBid :: NFTMarketplace where
  "exBid = exListed\<lparr>nextBidId := 2,
     bidCollectionMap := (\<lambda>_. 0)(1 := 5),
     bidTokenIdMap := (\<lambda>_. 0)(1 := 7),
     bidBidderMap := (\<lambda>_. 0)(1 := 11),
     bidAmountMap := (\<lambda>_. 0)(1 := 900),
     bidActiveMap := (\<lambda>_. 0)(1 := 1),
     events := [ListingCreatedEvent 1 5 7 10 1000, BidPlacedEvent 1 5 7 11 900]\<rparr>"

definition exRegistered :: NFTMarketplace where
  "exRegistered = exDeployed\<lparr>
     collectionRegisteredMap := (\<lambda>_. 0)(5 := 1),
     collectionRoyaltyBpsMap := (\<lambda>_. 0)(5 := 250),
     collectionRoyaltyRecipientMap := (\<lambda>_. 0)(5 := 12),
     events := [CollectionRegisteredEvent 5 250]\<rparr>"

text \<open>The bid storage with a cumulative volume that leaves no room for another trade.\<close>

definition exFull :: NFTMarketplace where
  "exFull = exBid\<lparr>totalVolume := - 1\<rparr>"

text \<open>
  \<open>exTrades\<close>: listing, bid, purchase and acceptance. \<open>exRelist\<close>: the same token listed
  and bid on again, which creates new ids.
\<close>

definition exTrades :: "Tx list" where
  "exTrades = [(exCallOk, exSeller, M_listNFT 5 7 1000), (exCallOk, exBuyer, M_placeBid 5 7 900),
               (exCallOk, exBuyer, M_buyNFT 1), (exCallOk, exSeller, M_acceptBid 1)]"

definition exRelist :: "Tx list" where
  "exRelist = [(exCallOk, exSeller, M_listNFT 5 7 1000), (exCallOk, exBuyer, M_placeBid 5 7 900)]"

text \<open>A purchase whose transfer fails, followed by a successful acceptance of the bid.\<close>

definition exFailedThenAccepted :: "Tx list" where
  "exFailedThenAccepted =
     [(exCallTransferFails, exBuyer, M_buyNFT 1), (exCallOk, exSeller, M_acceptBid 1)]"

subsection \<open>Notions the properties are stated with\<close>

text \<open>A call succeeds when it returns rather than throws.\<close>

definition succeeds :: "(Revert + 'a) \<times> 'b \<Rightarrow> bool" where
  "succeeds res = (case fst res of Inl _ \<Rightarrow> False | Inr _ \<Rightarrow> True)"

text \<open>
  The settlement value of a call in the storage it runs on: the price \<open>buyNFT\<close> reads
  from the listing, the amount \<open>acceptBid\<close> reads from the bid, nothing for a call that
  is not a trade.
\<close>

fun settlement :: "NFTMarketplace \<Rightarrow> Method \<Rightarrow> u256" where
  "settlement s (M_buyNFT i) = listingPriceMap s i"
| "settlement s (M_acceptBid i) = bidAmountMap s i"
| "settlement s _ = 0"

text \<open>
  \<open>runOk\<close> runs transactions that all succeed (\<open>None\<close> as soon as one throws), and
  \<open>settled\<close> adds up the settlement values along the run.
\<close>

fun runOk :: "NFTMarketplace \<Rightarrow> Tx list \<Rightarrow> NFTMarketplace option" where
  "runOk s [] = Some s"
| "runOk s ((call, env, m) # txs) =
     (if succeeds (execute call env s m) then runOk (snd (execute call env s m)) txs else None)"

fun settled :: "NFTMarketplace \<Rightarrow> Tx list \<Rightarrow> nat" where
  "settled s [] = 0"
| "settled s ((call, env, m) # txs) =
     unat (settlement s m) + settled (snd (execute call env s m)) txs"

text \<open>
  A call has written the volume when it succeeds or when it throws at the transfer call,
  which \<open>buyNFT\<close> and \<open>acceptBid\<close> issue after the write. \<open>charged\<close> adds up the
  settlement values of those calls along a run of \<open>runAll\<close>.
\<close>

definition volumeWritten :: "Blockchain_call \<Rightarrow> Env \<Rightarrow> NFTMarketplace \<Rightarrow> Method \<Rightarrow> bool" where
  "volumeWritten call env s m =
     (succeeds (execute call env s m) \<or>
      fst (execute call env s m) = Inl (Revert ''NFT transfer failed''))"

fun charged :: "NFTMarketplace \<Rightarrow> Tx list \<Rightarrow> nat" where
  "charged s [] = 0"
| "charged s ((call, env, m) # txs) =
     (if volumeWritten call env s m then unat (settlement s m) else 0)
       + charged (snd (execute call env s m)) txs"

text \<open>A listing id none of whose five fields has been written.\<close>

definition unwritten :: "NFTMarketplace \<Rightarrow> u256 \<Rightarrow> bool" where
  "unwritten s i =
     (listingCollectionMap s i = 0 \<and> listingTokenIdMap s i = 0 \<and> listingSellerMap s i = 0 \<and>
      listingPriceMap s i = 0 \<and> listingActiveMap s i = 0)"


section \<open>Properties\<close>

subsection \<open>Auxiliary facts\<close>

lemmas ex_defs = exDeployed_def exSeller_def exBuyer_def exAdmin_def exCallOk_def
  exCallTransferFails_def exCallDenies_def exListed_def exBid_def exRegistered_def
  emptyStorage_def

lemmas op_defs = listNFT_def cancelListing_def buyNFT_def placeBid_def cancelBid_def
  acceptBid_def registerCollection_def setPlatformFee_def setPlatformFeeRecipient_def
  updateRoyalty_def getListing_def getBid_def getCollectionInfo_def getPlatformInfo_def
  verifyOwnership_def verifyApproval_def executeNFTTransfer_def requireActiveListing_def
  requireActiveBid_def onlyDeployer_def emitEvent_def addressToU256_def u256ToAddress_def
  ACTIVE_def INACTIVE_def MAX_ROYALTY_BPS_def MAX_PLATFORM_FEE_BPS_def

lemmas word_cmp = word_le_nat_alt word_less_nat_alt

lemma SafeMath_add_Inr:
  "SafeMath_add a b = Inr c \<Longrightarrow> c = a + b \<and> unat c = unat a + unat b"
  by (auto simp: SafeMath_add_def unat_word_ariths split: if_splits)

lemma SafeMath_add_Inl:
  "SafeMath_add a b = Inl e \<Longrightarrow> e = Revert ''SafeMath: addition overflow''"
  by (auto simp: SafeMath_add_def split: if_splits)

text \<open>The concrete run is a run of the contract.\<close>

lemma ex_onDeployment: "onDeployment emptyStorage 1 250 = (Inr (), exDeployed)"
  by (simp add: onDeployment_def ex_defs MAX_PLATFORM_FEE_BPS_def word_cmp)

lemma ex_listNFT: "listNFT exCallOk exSeller exDeployed 5 7 1000 = (Inr [U256 1], exListed)"
  by (simp add: op_defs ex_defs SafeMath_add_def Let_def)

lemma ex_placeBid: "placeBid exBuyer exListed 5 7 900 = (Inr [U256 1], exBid)"
  by (simp add: op_defs ex_defs SafeMath_add_def Let_def)

lemma ex_registerCollection:
  "registerCollection exAdmin exDeployed 5 250 12 = (Inr [Boolean True], exRegistered)"
  by (simp add: op_defs ex_defs Let_def word_cmp)

lemma reachable_exDeployed: "reachable exDeployed"
  using ex_onDeployment by (rule reachable.deployed)

lemma reachable_exListed: "reachable exListed"
  using reachable_exDeployed ex_listNFT
  by (rule reachable.called [where m = "M_listNFT 5 7 1000", simplified])

lemma reachable_exRegistered: "reachable exRegistered"
  using reachable_exDeployed ex_registerCollection
  by (rule reachable.called [where m = "M_registerCollection 5 250 12", simplified])

lemma succeeds_iff: "succeeds (r, s) = (\<exists>w. r = Inr w)"
  by (cases r) (simp_all add: succeeds_def)

subsection \<open>Failure of the transfer call\<close>

text \<open>
  Claim C1. In \<open>buyNFT\<close> and \<open>acceptBid\<close> the listing or bid is deactivated and its
  price or amount is added to \<open>totalVolume\<close> before the transfer call is issued, and
  when that call fails the call as a whole fails with both writes in place.

  The executions in which the transfer call fails are exactly those that end in the
  revert \<open>NFT transfer failed\<close>. Such an execution passed every earlier check, the
  storage \<open>s'\<close> it ends in is the storage before the call with the active flag cleared
  and the volume increased by the price without overflow, and nothing else changed; the
  failed transfer call was issued on that storage \<open>s'\<close>, that is, after the two writes.
\<close>

theorem transfer_failure_keeps_writes:
  "(buyNFT call env s listingId = (Inl (Revert ''NFT transfer failed''), s')) =
     (listingId \<noteq> 0 \<and> listingId < nextListingId s \<and>
      listingActiveMap s listingId \<noteq> INACTIVE \<and>
      tx_sender env \<noteq> u256ToAddress (listingSellerMap s listingId) \<and>
      unat (totalVolume s) + unat (listingPriceMap s listingId) < 2 ^ 256 \<and>
      s' = s\<lparr>listingActiveMap := (listingActiveMap s)(listingId := INACTIVE),
             totalVolume := totalVolume s + listingPriceMap s listingId\<rparr> \<and>
      \<not> success (call s' (u256ToAddress (listingCollectionMap s listingId))
           (safeTransferFrom (u256ToAddress (listingSellerMap s listingId)) (tx_sender env)
              (listingTokenIdMap s listingId))))
   \<and>
   (acceptBid call' env' t bidId = (Inl (Revert ''NFT transfer failed''), t') =
     (bidId \<noteq> 0 \<and> bidId < nextBidId t \<and> bidActiveMap t bidId \<noteq> INACTIVE \<and>
      success (call' t (u256ToAddress (bidCollectionMap t bidId)) (ownerOf (bidTokenIdMap t bidId))) \<and>
      readAddress (call' t (u256ToAddress (bidCollectionMap t bidId)) (ownerOf (bidTokenIdMap t bidId)))
        = tx_sender env' \<and>
      unat (totalVolume t) + unat (bidAmountMap t bidId) < 2 ^ 256 \<and>
      t' = t\<lparr>bidActiveMap := (bidActiveMap t)(bidId := INACTIVE),
              totalVolume := totalVolume t + bidAmountMap t bidId\<rparr> \<and>
      \<not> success (call' t' (u256ToAddress (bidCollectionMap t bidId))
           (safeTransferFrom (tx_sender env') (u256ToAddress (bidBidderMap t bidId))
              (bidTokenIdMap t bidId)))))"
proof (intro conjI)
  show "(buyNFT call env s listingId = (Inl (Revert ''NFT transfer failed''), s')) =
     (listingId \<noteq> 0 \<and> listingId < nextListingId s \<and>
      listingActiveMap s listingId \<noteq> INACTIVE \<and>
      tx_sender env \<noteq> u256ToAddress (listingSellerMap s listingId) \<and>
      unat (totalVolume s) + unat (listingPriceMap s listingId) < 2 ^ 256 \<and>
      s' = s\<lparr>listingActiveMap := (listingActiveMap s)(listingId := INACTIVE),
             totalVolume := totalVolume s + listingPriceMap s listingId\<rparr> \<and>
      \<not> success (call s' (u256ToAddress (listingCollectionMap s listingId))
           (safeTransferFrom (u256ToAddress (listingSellerMap s listingId)) (tx_sender env)
              (listingTokenIdMap s listingId))))"
    by (auto simp: buyNFT_def requireActiveListing_def executeNFTTransfer_def SafeMath_add_def
        Let_def split: sum.splits if_splits)
next
  show "(acceptBid call' env' t bidId = (Inl (Revert ''NFT transfer failed''), t')) =
     (bidId \<noteq> 0 \<and> bidId < nextBidId t \<and> bidActiveMap t bidId \<noteq> INACTIVE \<and>
      success (call' t (u256ToAddress (bidCollectionMap t bidId)) (ownerOf (bidTokenIdMap t bidId))) \<and>
      readAddress (call' t (u256ToAddress (bidCollectionMap t bidId)) (ownerOf (bidTokenIdMap t bidId)))
        = tx_sender env' \<and>
      unat (totalVolume t) + unat (bidAmountMap t bidId) < 2 ^ 256 \<and>
      t' = t\<lparr>bidActiveMap := (bidActiveMap t)(bidId := INACTIVE),
              totalVolume := totalVolume t + bidAmountMap t bidId\<rparr> \<and>
      \<not> success (call' t' (u256ToAddress (bidCollectionMap t bidId))
           (safeTransferFrom (tx_sender env') (u256ToAddress (bidBidderMap t bidId))
              (bidTokenIdMap t bidId))))"
    by (auto simp: acceptBid_def requireActiveBid_def verifyOwnership_def executeNFTTransfer_def
        SafeMath_add_def Let_def split: sum.splits if_splits)
qed

theorem transfer_failure_keeps_writes_witness:
  "buyNFT exCallTransferFails exBuyer exBid 1 =
     (Inl (Revert ''NFT transfer failed''),
      exBid\<lparr>listingActiveMap := (listingActiveMap exBid)(1 := INACTIVE),
            totalVolume := totalVolume exBid + listingPriceMap exBid 1\<rparr>) \<and>
   acceptBid exCallTransferFails exSeller exBid 1 =
     (Inl (Revert ''NFT transfer failed''),
      exBid\<lparr>bidActiveMap := (bidActiveMap exBid)(1 := INACTIVE),
            totalVolume := totalVolume exBid + bidAmountMap exBid 1\<rparr>) \<and>
   listingActiveMap exBid 1 = ACTIVE \<and> bidActiveMap exBid 1 = ACTIVE \<and>
   totalVolume exBid = 0 \<and>
   totalVolume (snd (buyNFT exCallTransferFails exBuyer exBid 1)) = 1000 \<and>
   listingActiveMap (snd (buyNFT exCallTransferFails exBuyer exBid 1)) 1 = INACTIVE \<and>
   totalVolume (snd (acceptBid exCallTransferFails exSeller exBid 1)) = 900 \<and>
   bidActiveMap (snd (acceptBid exCallTransferFails exSeller exBid 1)) 1 = INACTIVE"
  using transfer_failure_keeps_writes
    [of exCallTransferFails exBuyer exBid 1
        "exBid\<lparr>listingActiveMap := (listingActiveMap exBid)(1 := INACTIVE),
              totalVolume := totalVolume exBid + listingPriceMap exBid 1\<rparr>"
        exCallTransferFails exSeller exBid 1
        "exBid\<lparr>bidActiveMap := (bidActiveMap exBid)(1 := INACTIVE),
              totalVolume := totalVolume exBid + bidAmountMap exBid 1\<rparr>"]
  by (simp add: ex_defs u256ToAddress_def ACTIVE_def INACTIVE_def word_cmp)

subsection \<open>Listing ids\<close>

text \<open>
  Claim C3. For every successful \<open>listNFT\<close> call the returned listing id is the value
  of \<open>nextListingId\<close> immediately before the call, the counter after the call is that
  value plus exactly 1 (as numbers, with no wrap-around), and \<open>totalListings\<close> has
  increased by exactly 1.
\<close>

theorem listNFT_returns_counter:
  "listNFT call env s collectionAddr tokenId price = (Inr w, s') \<Longrightarrow>
     w = [U256 (nextListingId s)] \<and>
     nextListingId s' = nextListingId s + 1 \<and>
     unat (nextListingId s') = unat (nextListingId s) + 1 \<and>
     totalListings s' = totalListings s + 1 \<and>
     unat (totalListings s') = unat (totalListings s) + 1"
  by (auto simp: listNFT_def Let_def emitEvent_def dest!: SafeMath_add_Inr
      split: if_splits sum.splits)

theorem listNFT_returns_counter_witness:
  "listNFT exCallOk exSeller exDeployed 5 7 1000 = (Inr [U256 1], exListed) \<and>
   [U256 1] = [U256 (nextListingId exDeployed)] \<and>
   unat (nextListingId exListed) = unat (nextListingId exDeployed) + 1 \<and>
   unat (totalListings exListed) = unat (totalListings exDeployed) + 1"
  using listNFT_returns_counter [OF ex_listNFT] ex_listNFT by (simp add: ex_defs)

subsection \<open>A seller cannot buy the own listing\<close>

text \<open>
  Claim C7. For every active listing whose recorded seller is the caller, \<open>buyNFT\<close>
  fails with \<open>Buyer cannot be seller\<close> and returns the storage it was given: the
  listing stays active and \<open>totalVolume\<close> is not incremented.
\<close>

theorem buyNFT_by_seller_fails_unchanged:
  "listingId \<noteq> 0 \<Longrightarrow> listingId < nextListingId s \<Longrightarrow>
   listingActiveMap s listingId \<noteq> INACTIVE \<Longrightarrow>
   u256ToAddress (listingSellerMap s listingId) = tx_sender env \<Longrightarrow>
   buyNFT call env s listingId = (Inl (Revert ''Buyer cannot be seller''), s)"
  by (simp add: buyNFT_def requireActiveListing_def Let_def)

theorem buyNFT_by_seller_fails_unchanged_witness:
  "(1::u256) \<noteq> 0 \<and> 1 < nextListingId exListed \<and> listingActiveMap exListed 1 \<noteq> INACTIVE \<and>
   u256ToAddress (listingSellerMap exListed 1) = tx_sender exSeller \<and>
   buyNFT exCallOk exSeller exListed 1 = (Inl (Revert ''Buyer cannot be seller''), exListed) \<and>
   listingActiveMap (snd (buyNFT exCallOk exSeller exListed 1)) 1 = ACTIVE \<and>
   totalVolume (snd (buyNFT exCallOk exSeller exListed 1)) = totalVolume exListed"
proof -
  have h: "(1::u256) \<noteq> 0" "1 < nextListingId exListed" "listingActiveMap exListed 1 \<noteq> INACTIVE"
    "u256ToAddress (listingSellerMap exListed 1) = tx_sender exSeller"
    by (simp_all add: ex_defs u256ToAddress_def INACTIVE_def word_less_nat_alt)
  from buyNFT_by_seller_fails_unchanged [OF h, of exCallOk] h show ?thesis
    by (simp add: ex_defs ACTIVE_def)
qed

subsection \<open>Remote checks of a listing\<close>

text \<open>
  Claim C8. \<open>listNFT\<close> asks the collection for the owner of the token and for the
  marketplace's approval while the storage is still the one it was called with, and if
  either call fails or answers negatively it fails and returns that storage: no listing
  is recorded, \<open>nextListingId\<close> and \<open>totalListings\<close> are unchanged. (With a null
  collection or a zero price the call fails before any remote call, unchanged as well.)
\<close>

theorem listNFT_remote_checks_before_writes:
  "(\<not> success (call s collectionAddr (ownerOf tokenId)) \<or>
    readAddress (call s collectionAddr (ownerOf tokenId)) \<noteq> tx_sender env \<or>
    \<not> success (call s collectionAddr (isApprovedForAll (tx_sender env) (contract_address env))) \<or>
    \<not> readBoolean (call s collectionAddr (isApprovedForAll (tx_sender env) (contract_address env)))
    \<longrightarrow>
      \<not> succeeds (listNFT call env s collectionAddr tokenId price) \<and>
      snd (listNFT call env s collectionAddr tokenId price) = s) \<and>
   (collectionAddr \<noteq> 0 \<and> price \<noteq> 0 \<longrightarrow>
    (\<not> success (call s collectionAddr (ownerOf tokenId)) \<longrightarrow>
       listNFT call env s collectionAddr tokenId price = (Inl (Revert ''ownerOf call failed''), s)) \<and>
    (success (call s collectionAddr (ownerOf tokenId)) \<and>
     readAddress (call s collectionAddr (ownerOf tokenId)) \<noteq> tx_sender env \<longrightarrow>
       listNFT call env s collectionAddr tokenId price
         = (Inl (Revert ''Caller is not the token owner''), s)) \<and>
    (success (call s collectionAddr (ownerOf tokenId)) \<and>
     readAddress (call s collectionAddr (ownerOf tokenId)) = tx_sender env \<and>
     \<not> success (call s collectionAddr (isApprovedForAll (tx_sender env) (contract_address env)))
     \<longrightarrow>
       listNFT call env s collectionAddr tokenId price
         = (Inl (Revert ''isApprovedForAll call failed''), s)) \<and>
    (success (call s collectionAddr (ownerOf tokenId)) \<and>
     readAddress (call s collectionAddr (ownerOf tokenId)) = tx_sender env \<and>
     success (call s collectionAddr (isApprovedForAll (tx_sender env) (contract_address env))) \<and>
     \<not> readBoolean (call s collectionAddr (isApprovedForAll (tx_sender env) (contract_address env)))
     \<longrightarrow>
       listNFT call env s collectionAddr tokenId price
         = (Inl (Revert ''Marketplace not approved for transfers''), s)))"
proof (intro conjI)
  show "\<not> success (call s collectionAddr (ownerOf tokenId)) \<or>
    readAddress (call s collectionAddr (ownerOf tokenId)) \<noteq> tx_sender env \<or>
    \<not> success (call s collectionAddr (isApprovedForAll (tx_sender env) (contract_address env))) \<or>
    \<not> readBoolean (call s collectionAddr (isApprovedForAll (tx_sender env) (contract_address env)))
    \<longrightarrow>
      \<not> succeeds (listNFT call env s collectionAddr tokenId price) \<and>
      snd (listNFT call env s collectionAddr tokenId price) = s"
    by (auto simp: listNFT_def verifyOwnership_def verifyApproval_def succeeds_def Let_def)
next
  show "collectionAddr \<noteq> 0 \<and> price \<noteq> 0 \<longrightarrow>
    (\<not> success (call s collectionAddr (ownerOf tokenId)) \<longrightarrow>
       listNFT call env s collectionAddr tokenId price = (Inl (Revert ''ownerOf call failed''), s)) \<and>
    (success (call s collectionAddr (ownerOf tokenId)) \<and>
     readAddress (call s collectionAddr (ownerOf tokenId)) \<noteq> tx_sender env \<longrightarrow>
       listNFT call env s collectionAddr tokenId price
         = (Inl (Revert ''Caller is not the token owner''), s)) \<and>
    (success (call s collectionAddr (ownerOf tokenId)) \<and>
     readAddress (call s collectionAddr (ownerOf tokenId)) = tx_sender env \<and>
     \<not> success (call s collectionAddr (isApprovedForAll (tx_sender env) (contract_address env)))
     \<longrightarrow>
       listNFT call env s collectionAddr tokenId price
         = (Inl (Revert ''isApprovedForAll call failed''), s)) \<and>
    (success (call s collectionAddr (ownerOf tokenId)) \<and>
     readAddress (call s collectionAddr (ownerOf tokenId)) = tx_sender env \<and>
     success (call s collectionAddr (isApprovedForAll (tx_sender env) (contract_address env))) \<and>
     \<not> readBoolean (call s collectionAddr (isApprovedForAll (tx_sender env) (contract_address env)))
     \<longrightarrow>
       listNFT call env s collectionAddr tokenId price
         = (Inl (Revert ''Marketplace not approved for transfers''), s))"
    by (simp add: listNFT_def verifyOwnership_def verifyApproval_def Let_def)
qed

theorem listNFT_remote_checks_before_writes_witness:
  "(5::Address) \<noteq> 0 \<and> (1000::u256) \<noteq> 0 \<and>
   \<not> success (exCallDenies exDeployed 5 (ownerOf 7)) \<and>
   \<not> succeeds (listNFT exCallDenies exSeller exDeployed 5 7 1000) \<and>
   listNFT exCallDenies exSeller exDeployed 5 7 1000
     = (Inl (Revert ''ownerOf call failed''), exDeployed) \<and>
   succeeds (listNFT exCallOk exSeller exDeployed 5 7 1000) \<and>
   snd (listNFT exCallOk exSeller exDeployed 5 7 1000) \<noteq> exDeployed"
proof -
  have h: "(5::Address) \<noteq> 0 \<and> (1000::u256) \<noteq> 0" by simp
  have f: "\<not> success (exCallDenies exDeployed 5 (ownerOf 7))"
    by (simp add: exCallDenies_def)
  have ok: "succeeds (listNFT exCallOk exSeller exDeployed 5 7 1000)"
    "snd (listNFT exCallOk exSeller exDeployed 5 7 1000) \<noteq> exDeployed"
  proof -
    show "succeeds (listNFT exCallOk exSeller exDeployed 5 7 1000)"
      by (simp add: ex_listNFT succeeds_def)
    have "nextListingId exListed \<noteq> nextListingId exDeployed"
      by (simp add: ex_defs)
    then have "exListed \<noteq> exDeployed" by auto
    then show "snd (listNFT exCallOk exSeller exDeployed 5 7 1000) \<noteq> exDeployed"
      by (simp add: ex_listNFT)
  qed
  from listNFT_remote_checks_before_writes [of exCallDenies exDeployed 5 7 exSeller 1000] f h ok
  show ?thesis by (simp add: succeeds_def)
qed

subsection \<open>Purchases make no ownership or approval call\<close>

text \<open>
  Claim C10. \<open>buyNFT\<close> issues no \<open>ownerOf\<close> and no \<open>isApprovedForAll\<close> call: for every
  storage and every two behaviours of the external collections whose \<open>safeTransferFrom\<close>
  calls succeed in the same cases, \<open>buyNFT\<close> returns the same result and the same
  storage, whatever the two behaviours answer to \<open>ownerOf\<close> and \<open>isApprovedForAll\<close>.
  (Of the transfer response only the \<open>success\<close> flag is read.)
\<close>

theorem buyNFT_ignores_ownerOf_and_approval:
  "\<forall>st target f t k. success (call1 st target (safeTransferFrom f t k))
                       = success (call2 st target (safeTransferFrom f t k)) \<Longrightarrow>
   buyNFT call1 env s listingId = buyNFT call2 env s listingId"
proof -
  assume agree: "\<forall>st target f t k. success (call1 st target (safeTransferFrom f t k))
                       = success (call2 st target (safeTransferFrom f t k))"
  have eq: "executeNFTTransfer call1 = executeNFTTransfer call2"
    by (intro ext) (simp add: executeNFTTransfer_def agree)
  show ?thesis
    unfolding buyNFT_def eq by (rule refl)
qed

theorem buyNFT_ignores_ownerOf_and_approval_witness:
  "(\<forall>st target f t k. success (exCallOk st target (safeTransferFrom f t k))
                       = success (exCallDenies st target (safeTransferFrom f t k))) \<and>
   success (exCallOk exListed 5 (ownerOf 7)) \<noteq> success (exCallDenies exListed 5 (ownerOf 7)) \<and>
   buyNFT exCallOk exBuyer exListed 1 = buyNFT exCallDenies exBuyer exListed 1"
proof -
  have h: "\<forall>st target f t k. success (exCallOk st target (safeTransferFrom f t k))
                       = success (exCallDenies st target (safeTransferFrom f t k))"
    by (simp add: exCallOk_def exCallDenies_def)
  from buyNFT_ignores_ownerOf_and_approval [OF h] h show ?thesis
    by (simp add: exCallOk_def exCallDenies_def)
qed

subsection \<open>Cumulative volume\<close>

lemma volume_step:
  "execute call env s m = (Inr w, s') \<Longrightarrow>
   unat (totalVolume s') = unat (totalVolume s) + unat (settlement s m)"
  by (cases m)
     (auto simp: op_defs Let_def dest!: SafeMath_add_Inr split: if_splits sum.splits)

lemma volume_run:
  "runOk s txs = Some s' \<Longrightarrow> unat (totalVolume s') = unat (totalVolume s) + settled s txs"
proof (induction txs arbitrary: s)
  case Nil
  then show ?case by simp
next
  case (Cons tx txs)
  obtain call env m where tx: "tx = (call, env, m)" by (cases tx)
  obtain r s1 where ex: "execute call env s m = (r, s1)" by (cases "execute call env s m")
  from Cons.prems tx ex obtain w where r: "r = Inr w" and rest: "runOk s1 txs = Some s'"
    by (auto simp: succeeds_iff split: if_splits)
  from volume_step ex r have "unat (totalVolume s1) = unat (totalVolume s) + unat (settlement s m)"
    by blast
  with Cons.IH [OF rest] tx ex show ?case by simp
qed

lemma volume_step_all:
  "unat (totalVolume (snd (execute call env s m)))
     = unat (totalVolume s) + (if volumeWritten call env s m then unat (settlement s m) else 0)"
  by (cases m)
     (auto simp: volumeWritten_def succeeds_def op_defs Let_def
        dest!: SafeMath_add_Inr SafeMath_add_Inl
        split: if_splits sum.splits)

lemma volume_runAll:
  "unat (totalVolume (runAll s txs)) = unat (totalVolume s) + charged s txs"
proof (induction txs arbitrary: s)
  case Nil
  then show ?case by simp
next
  case (Cons tx txs)
  obtain call env m where tx: "tx = (call, env, m)" by (cases tx)
  show ?case
    using Cons.IH [of "snd (execute call env s m)"] volume_step_all [of call env s m] tx
    by simp
qed

lemma charged_runOk: "runOk s txs = Some s' \<Longrightarrow> charged s txs = settled s txs \<and> runAll s txs = s'"
proof (induction txs arbitrary: s)
  case Nil
  then show ?case by simp
next
  case (Cons tx txs)
  obtain call env m where tx: "tx = (call, env, m)" by (cases tx)
  from Cons.prems tx have ok: "succeeds (execute call env s m)"
    and rest: "runOk (snd (execute call env s m)) txs = Some s'"
    by (auto split: if_splits)
  from Cons.IH [OF rest] ok tx show ?case
    by (simp add: volumeWritten_def)
qed

text \<open>
  Claim C9, as the code has it. After any sequence of calls, \<open>totalVolume\<close> has grown
  by exactly the sum of the settlement values of the trades (\<open>buyNFT\<close>, \<open>acceptBid\<close>)
  in it that succeeded or that failed at the transfer call: a trade that fails there has
  already added its price or amount, and the addition stays. After a sequence in which
  every call succeeds this is the sum of the settlement values of its trades, each
  successful trade adding exactly its price or amount and every other successful call
  adding nothing; counted from a deployment, \<open>totalVolume\<close> is that sum. The sums are
  sums of natural numbers: no addition wraps around or saturates, and a trade whose
  addition would exceed the 256-bit range does not succeed.
\<close>

theorem totalVolume_sums_settlements:
  "unat (totalVolume (runAll s txs)) = unat (totalVolume s) + charged s txs \<and>
   (runOk s txs = Some s' \<longrightarrow>
      runAll s txs = s' \<and> charged s txs = settled s txs \<and>
      unat (totalVolume s') = unat (totalVolume s) + settled s txs) \<and>
   (onDeployment emptyStorage feeRecipient feeBps = (Inr (), s) \<and> runOk s txs = Some s' \<longrightarrow>
      unat (totalVolume s') = settled s txs) \<and>
   (succeeds (execute call env s m) \<longrightarrow>
      unat (totalVolume (snd (execute call env s m)))
        = unat (totalVolume s) + unat (settlement s m)) \<and>
   (2 ^ 256 \<le> unat (totalVolume s) + unat (settlement s m) \<longrightarrow>
      \<not> succeeds (execute call env s m))"
proof -
  have all: "unat (totalVolume (runAll s txs)) = unat (totalVolume s) + charged s txs"
    by (rule volume_runAll)
  have step: "unat (totalVolume (snd (execute call env s m)))
        = unat (totalVolume s) + unat (settlement s m)"
    if "succeeds (execute call env s m)"
    using that volume_step [of call env s m]
    by (cases "execute call env s m") (auto simp: succeeds_iff)
  have run: "runAll s txs = s' \<and> charged s txs = settled s txs \<and>
      unat (totalVolume s') = unat (totalVolume s) + settled s txs"
    if "runOk s txs = Some s'"
    using that charged_runOk [of s txs s'] volume_run [of s txs s'] by simp
  have dep: "unat (totalVolume s') = settled s txs"
    if "onDeployment emptyStorage feeRecipient feeBps = (Inr (), s) \<and> runOk s txs = Some s'"
  proof -
    from that have "totalVolume s = 0"
      by (auto simp: onDeployment_def emptyStorage_def split: if_splits)
    with run that show ?thesis by simp
  qed
  have ovf: "\<not> succeeds (execute call env s m)"
    if big: "2 ^ 256 \<le> unat (totalVolume s) + unat (settlement s m)"
  proof
    assume "succeeds (execute call env s m)"
    from step [OF this] big
    have "2 ^ 256 \<le> unat (totalVolume (snd (execute call env s m)))" by simp
    moreover have "unat (totalVolume (snd (execute call env s m))) < 2 ^ LENGTH(256)"
      by (rule unsigned_less)
    ultimately show False by simp
  qed
  from all step run dep ovf show ?thesis by blast
qed

theorem totalVolume_sums_settlements_witness:
  "runOk exDeployed exTrades \<noteq> None \<and>
   map_option totalVolume (runOk exDeployed exTrades) = Some 1900 \<and>
   settled exDeployed exTrades = 1900 \<and>
   2 ^ 256 \<le> unat (totalVolume exFull) + unat (settlement exFull (M_buyNFT 1)) \<and>
   \<not> succeeds (execute exCallOk exBuyer exFull (M_buyNFT 1)) \<and>
   totalVolume (runAll exBid exFailedThenAccepted) = 1900 \<and>
   charged exBid exFailedThenAccepted = 1900"
proof -
  have "\<exists>sf. runOk exDeployed exTrades = Some sf \<and> totalVolume sf = 1900"
    by (simp add: exTrades_def succeeds_def op_defs ex_defs SafeMath_add_def Let_def word_cmp)
  then obtain sf where r: "runOk exDeployed exTrades = Some sf" and v: "totalVolume sf = 1900"
    by blast
  have big: "2 ^ 256 \<le> unat (totalVolume exFull) + unat (settlement exFull (M_buyNFT 1))"
    by (simp add: exFull_def ex_defs unsigned_minus_1_eq_mask mask_eq_exp_minus_1)
  have t: "totalVolume (runAll exBid exFailedThenAccepted) = 1900" "totalVolume exBid = 0"
    by (simp_all add: exFailedThenAccepted_def op_defs ex_defs SafeMath_add_def Let_def word_cmp)
  from totalVolume_sums_settlements [of exDeployed exTrades sf 1 250 exCallOk exBuyer "M_buyNFT 1"]
    r v ex_onDeployment
  have "settled exDeployed exTrades = 1900" by simp
  moreover
  from totalVolume_sums_settlements [of exFull "[]" exFull 1 250 exCallOk exBuyer "M_buyNFT 1"] big
  have "\<not> succeeds (execute exCallOk exBuyer exFull (M_buyNFT 1))" by blast
  moreover
  from totalVolume_sums_settlements
    [of exBid exFailedThenAccepted exBid 1 250 exCallOk exBuyer "M_buyNFT 1", THEN conjunct1] t
  have "charged exBid exFailedThenAccepted = 1900" by simp
  ultimately show ?thesis using r v big t by simp
qed

text \<open>
  Claim C9 as stated fails in a run with a failed trade: the purchase of listing 1
  throws at the transfer call, the acceptance of bid 1 (amount 900) succeeds, and
  \<open>totalVolume\<close>, 0 before the two calls, is 1900 after the one successful trade.
\<close>

theorem totalVolume_two_trades_counterexample:
  "\<not> succeeds (execute exCallTransferFails exBuyer exBid (M_buyNFT 1)) \<and>
   succeeds (execute exCallOk exSeller
               (snd (execute exCallTransferFails exBuyer exBid (M_buyNFT 1))) (M_acceptBid 1)) \<and>
   settlement (snd (execute exCallTransferFails exBuyer exBid (M_buyNFT 1))) (M_acceptBid 1) = 900 \<and>
   totalVolume exBid = 0 \<and>
   totalVolume (runAll exBid exFailedThenAccepted) = 1900"
  by (simp add: exFailedThenAccepted_def succeeds_def op_defs ex_defs SafeMath_add_def Let_def
      word_cmp)

subsection \<open>Inactive is terminal\<close>

lemma word_less_succ: "i < n \<Longrightarrow> unat c = unat n + unat (1::u256) \<Longrightarrow> i < c \<and> i \<noteq> n"
  by (auto simp: word_less_nat_alt)

lemma listing_inactive_step:
  "i < nextListingId s \<Longrightarrow> listingActiveMap s i = INACTIVE \<Longrightarrow>
   execute call env s m = (r, s') \<Longrightarrow>
   i < nextListingId s' \<and> listingActiveMap s' i = INACTIVE"
  by (cases m)
     (auto simp: op_defs Let_def dest!: SafeMath_add_Inr dest: word_less_succ
        split: if_splits sum.splits)

lemma bid_inactive_step:
  "i < nextBidId s \<Longrightarrow> bidActiveMap s i = INACTIVE \<Longrightarrow>
   execute call env s m = (r, s') \<Longrightarrow>
   i < nextBidId s' \<and> bidActiveMap s' i = INACTIVE"
  by (cases m)
     (auto simp: op_defs Let_def dest!: SafeMath_add_Inr dest: word_less_succ
        split: if_splits sum.splits)

lemma listing_inactive_run:
  "i < nextListingId s \<Longrightarrow> listingActiveMap s i = INACTIVE \<Longrightarrow>
   i < nextListingId (runAll s txs) \<and> listingActiveMap (runAll s txs) i = INACTIVE"
proof (induction txs arbitrary: s)
  case Nil
  then show ?case by simp
next
  case (Cons tx txs)
  obtain call env m where tx: "tx = (call, env, m)" by (cases tx)
  have "i < nextListingId (snd (execute call env s m)) \<and>
        listingActiveMap (snd (execute call env s m)) i = INACTIVE"
    using listing_inactive_step [OF Cons.prems, of call env m] by (cases "execute call env s m") simp
  then show ?case using Cons.IH tx by simp
qed

lemma bid_inactive_run:
  "i < nextBidId s \<Longrightarrow> bidActiveMap s i = INACTIVE \<Longrightarrow>
   i < nextBidId (runAll s txs) \<and> bidActiveMap (runAll s txs) i = INACTIVE"
proof (induction txs arbitrary: s)
  case Nil
  then show ?case by simp
next
  case (Cons tx txs)
  obtain call env m where tx: "tx = (call, env, m)" by (cases tx)
  have "i < nextBidId (snd (execute call env s m)) \<and>
        bidActiveMap (snd (execute call env s m)) i = INACTIVE"
    using bid_inactive_step [OF Cons.prems, of call env m] by (cases "execute call env s m") simp
  then show ?case using Cons.IH tx by simp
qed

lemma cancelListing_succeeds:
  "succeeds (cancelListing env s i) \<Longrightarrow>
   i \<noteq> 0 \<and> i < nextListingId (snd (cancelListing env s i)) \<and>
   listingActiveMap (snd (cancelListing env s i)) i = INACTIVE"
  by (auto simp: succeeds_def cancelListing_def requireActiveListing_def emitEvent_def Let_def
      split: if_splits sum.splits)

lemma cancelBid_succeeds:
  "succeeds (cancelBid env s i) \<Longrightarrow>
   i \<noteq> 0 \<and> i < nextBidId (snd (cancelBid env s i)) \<and>
   bidActiveMap (snd (cancelBid env s i)) i = INACTIVE"
  by (auto simp: succeeds_def cancelBid_def requireActiveBid_def emitEvent_def Let_def
      split: if_splits sum.splits)

lemma cancelListing_inactive:
  "i \<noteq> 0 \<Longrightarrow> i < nextListingId s \<Longrightarrow> listingActiveMap s i = INACTIVE \<Longrightarrow>
   cancelListing env s i = (Inl (Revert ''Listing is not active''), s)"
  by (simp add: cancelListing_def requireActiveListing_def Let_def)

lemma cancelBid_inactive:
  "i \<noteq> 0 \<Longrightarrow> i < nextBidId s \<Longrightarrow> bidActiveMap s i = INACTIVE \<Longrightarrow>
   cancelBid env s i = (Inl (Revert ''Bid is not active''), s)"
  by (simp add: cancelBid_def requireActiveBid_def Let_def)

lemma cancelListing_active:
  "listingId \<noteq> 0 \<Longrightarrow> listingId < nextListingId s \<Longrightarrow>
   listingActiveMap s listingId \<noteq> INACTIVE \<Longrightarrow>
   tx_sender env = u256ToAddress (listingSellerMap s listingId) \<Longrightarrow>
   cancelListing env s listingId =
     (Inr [Boolean True],
      s\<lparr>listingActiveMap := (listingActiveMap s)(listingId := INACTIVE),
        events := events s @ [ListingCancelledEvent listingId]\<rparr>)"
  by (simp add: cancelListing_def requireActiveListing_def emitEvent_def Let_def)

lemma cancelBid_active:
  "bidId \<noteq> 0 \<Longrightarrow> bidId < nextBidId s \<Longrightarrow> bidActiveMap s bidId \<noteq> INACTIVE \<Longrightarrow>
   tx_sender env = u256ToAddress (bidBidderMap s bidId) \<Longrightarrow>
   cancelBid env s bidId =
     (Inr [Boolean True],
      s\<lparr>bidActiveMap := (bidActiveMap s)(bidId := INACTIVE),
        events := events s @ [BidCancelledEvent bidId]\<rparr>)"
  by (simp add: cancelBid_def requireActiveBid_def emitEvent_def Let_def)

text \<open>
  Claim C4. For every allocated listing id (an id below \<open>nextListingId\<close>) and every
  allocated bid id, once the active flag is false no sequence of calls, successful or
  not, sets it back to true. Consequently \<open>cancelListing\<close> (resp. \<open>cancelBid\<close>) called
  on an active listing by its seller (resp. on an active bid by its bidder) succeeds,
  clearing the flag and emitting its event, and a second call on the same id, by any
  caller and after any calls in between, fails with \<open>Listing is not active\<close> (resp.
  \<open>Bid is not active\<close>) and changes nothing.
\<close>

theorem inactive_is_terminal:
  "(listingId < nextListingId s \<and> listingActiveMap s listingId = INACTIVE \<longrightarrow>
      listingActiveMap (runAll s txs) listingId = INACTIVE) \<and>
   (bidId < nextBidId s \<and> bidActiveMap s bidId = INACTIVE \<longrightarrow>
      bidActiveMap (runAll s txs) bidId = INACTIVE) \<and>
   (succeeds (cancelListing env s listingId) \<longrightarrow>
      cancelListing env' (runAll (snd (cancelListing env s listingId)) txs) listingId
        = (Inl (Revert ''Listing is not active''),
           runAll (snd (cancelListing env s listingId)) txs)) \<and>
   (succeeds (cancelBid env s bidId) \<longrightarrow>
      cancelBid env' (runAll (snd (cancelBid env s bidId)) txs) bidId
        = (Inl (Revert ''Bid is not active''), runAll (snd (cancelBid env s bidId)) txs)) \<and>
   (listingId \<noteq> 0 \<and> listingId < nextListingId s \<and>
    listingActiveMap s listingId \<noteq> INACTIVE \<and>
    tx_sender env = u256ToAddress (listingSellerMap s listingId) \<longrightarrow>
      succeeds (cancelListing env s listingId) \<and>
      cancelListing env s listingId =
        (Inr [Boolean True],
         s\<lparr>listingActiveMap := (listingActiveMap s)(listingId := INACTIVE),
           events := events s @ [ListingCancelledEvent listingId]\<rparr>) \<and>
      cancelListing env' (runAll (snd (cancelListing env s listingId)) txs) listingId
        = (Inl (Revert ''Listing is not active''),
           runAll (snd (cancelListing env s listingId)) txs)) \<and>
   (bidId \<noteq> 0 \<and> bidId < nextBidId s \<and> bidActiveMap s bidId \<noteq> INACTIVE \<and>
    tx_sender env = u256ToAddress (bidBidderMap s bidId) \<longrightarrow>
      succeeds (cancelBid env s bidId) \<and>
      cancelBid env s bidId =
        (Inr [Boolean True],
         s\<lparr>bidActiveMap := (bidActiveMap s)(bidId := INACTIVE),
           events := events s @ [BidCancelledEvent bidId]\<rparr>) \<and>
      cancelBid env' (runAll (snd (cancelBid env s bidId)) txs) bidId
        = (Inl (Revert ''Bid is not active''), runAll (snd (cancelBid env s bidId)) txs))"
proof -
  have a: "listingActiveMap (runAll s txs) listingId = INACTIVE"
    if "listingId < nextListingId s \<and> listingActiveMap s listingId = INACTIVE"
    using that listing_inactive_run by blast
  have b: "bidActiveMap (runAll s txs) bidId = INACTIVE"
    if "bidId < nextBidId s \<and> bidActiveMap s bidId = INACTIVE"
    using that bid_inactive_run by blast
  have c: "cancelListing env' (runAll (snd (cancelListing env s listingId)) txs) listingId
        = (Inl (Revert ''Listing is not active''),
           runAll (snd (cancelListing env s listingId)) txs)"
    if ok: "succeeds (cancelListing env s listingId)"
  proof -
    let ?s1 = "snd (cancelListing env s listingId)"
    from cancelListing_succeeds [OF ok]
    have nz: "listingId \<noteq> 0" and lt: "listingId < nextListingId ?s1"
      and off: "listingActiveMap ?s1 listingId = INACTIVE"
      by simp_all
    from listing_inactive_run [OF lt off, of txs] nz show ?thesis
      by (simp add: cancelListing_inactive)
  qed
  have d: "cancelBid env' (runAll (snd (cancelBid env s bidId)) txs) bidId
        = (Inl (Revert ''Bid is not active''), runAll (snd (cancelBid env s bidId)) txs)"
    if ok: "succeeds (cancelBid env s bidId)"
  proof -
    let ?s1 = "snd (cancelBid env s bidId)"
    from cancelBid_succeeds [OF ok]
    have nz: "bidId \<noteq> 0" and lt: "bidId < nextBidId ?s1"
      and off: "bidActiveMap ?s1 bidId = INACTIVE"
      by simp_all
    from bid_inactive_run [OF lt off, of txs] nz show ?thesis
      by (simp add: cancelBid_inactive)
  qed
  have e: "succeeds (cancelListing env s listingId) \<and>
      cancelListing env s listingId =
        (Inr [Boolean True],
         s\<lparr>listingActiveMap := (listingActiveMap s)(listingId := INACTIVE),
           events := events s @ [ListingCancelledEvent listingId]\<rparr>) \<and>
      cancelListing env' (runAll (snd (cancelListing env s listingId)) txs) listingId
        = (Inl (Revert ''Listing is not active''),
           runAll (snd (cancelListing env s listingId)) txs)"
    if h: "listingId \<noteq> 0 \<and> listingId < nextListingId s \<and>
      listingActiveMap s listingId \<noteq> INACTIVE \<and>
      tx_sender env = u256ToAddress (listingSellerMap s listingId)"
  proof -
    from h have eq: "cancelListing env s listingId =
        (Inr [Boolean True],
         s\<lparr>listingActiveMap := (listingActiveMap s)(listingId := INACTIVE),
           events := events s @ [ListingCancelledEvent listingId]\<rparr>)"
      by (simp add: cancelListing_active)
    then have ok: "succeeds (cancelListing env s listingId)"
      by (simp add: succeeds_def)
    show ?thesis by (intro conjI ok eq c [OF ok])
  qed
  have f: "succeeds (cancelBid env s bidId) \<and>
      cancelBid env s bidId =
        (Inr [Boolean True],
         s\<lparr>bidActiveMap := (bidActiveMap s)(bidId := INACTIVE),
           events := events s @ [BidCancelledEvent bidId]\<rparr>) \<and>
      cancelBid env' (runAll (snd (cancelBid env s bidId)) txs) bidId
        = (Inl (Revert ''Bid is not active''), runAll (snd (cancelBid env s bidId)) txs)"
    if h: "bidId \<noteq> 0 \<and> bidId < nextBidId s \<and> bidActiveMap s bidId \<noteq> INACTIVE \<and>
      tx_sender env = u256ToAddress (bidBidderMap s bidId)"
  proof -
    from h have eq: "cancelBid env s bidId =
        (Inr [Boolean True],
         s\<lparr>bidActiveMap := (bidActiveMap s)(bidId := INACTIVE),
           events := events s @ [BidCancelledEvent bidId]\<rparr>)"
      by (simp add: cancelBid_active)
    then have ok: "succeeds (cancelBid env s bidId)"
      by (simp add: succeeds_def)
    show ?thesis by (intro conjI ok eq d [OF ok])
  qed
  show ?thesis
    by (intro conjI; rule impI, (erule a | erule b | erule c | erule d | erule e | erule f))
qed

theorem inactive_is_terminal_witness:
  "(1::u256) \<noteq> 0 \<and> 1 < nextListingId exBid \<and> listingActiveMap exBid 1 \<noteq> INACTIVE \<and>
   tx_sender exSeller = u256ToAddress (listingSellerMap exBid 1) \<and>
   succeeds (cancelListing exSeller exBid 1) \<and>
   1 < nextListingId (snd (cancelListing exSeller exBid 1)) \<and>
   listingActiveMap (snd (cancelListing exSeller exBid 1)) 1 = INACTIVE \<and>
   listingActiveMap (runAll (snd (cancelListing exSeller exBid 1)) exRelist) 1 = INACTIVE \<and>
   cancelListing exSeller (runAll (snd (cancelListing exSeller exBid 1)) exRelist) 1
     = (Inl (Revert ''Listing is not active''),
        runAll (snd (cancelListing exSeller exBid 1)) exRelist) \<and>
   (1::u256) \<noteq> 0 \<and> 1 < nextBidId exBid \<and> bidActiveMap exBid 1 \<noteq> INACTIVE \<and>
   tx_sender exBuyer = u256ToAddress (bidBidderMap exBid 1) \<and>
   succeeds (cancelBid exBuyer exBid 1) \<and>
   1 < nextBidId (snd (cancelBid exBuyer exBid 1)) \<and>
   bidActiveMap (snd (cancelBid exBuyer exBid 1)) 1 = INACTIVE \<and>
   bidActiveMap (runAll (snd (cancelBid exBuyer exBid 1)) exRelist) 1 = INACTIVE \<and>
   cancelBid exBuyer (runAll (snd (cancelBid exBuyer exBid 1)) exRelist) 1
     = (Inl (Revert ''Bid is not active''), runAll (snd (cancelBid exBuyer exBid 1)) exRelist)"
proof -
  let ?sl = "snd (cancelListing exSeller exBid 1)"
  let ?sb = "snd (cancelBid exBuyer exBid 1)"
  have hl: "(1::u256) \<noteq> 0 \<and> 1 < nextListingId exBid \<and> listingActiveMap exBid 1 \<noteq> INACTIVE \<and>
      tx_sender exSeller = u256ToAddress (listingSellerMap exBid 1)"
    by (simp add: ex_defs u256ToAddress_def INACTIVE_def word_cmp)
  have hb: "(1::u256) \<noteq> 0 \<and> 1 < nextBidId exBid \<and> bidActiveMap exBid 1 \<noteq> INACTIVE \<and>
      tx_sender exBuyer = u256ToAddress (bidBidderMap exBid 1)"
    by (simp add: ex_defs u256ToAddress_def INACTIVE_def word_cmp)
  have l2: "1 < nextListingId ?sl"
    and l3: "listingActiveMap ?sl 1 = INACTIVE"
    by (simp_all add: op_defs ex_defs Let_def word_cmp)
  have b2: "1 < nextBidId ?sb"
    and b3: "bidActiveMap ?sb 1 = INACTIVE"
    by (simp_all add: op_defs ex_defs Let_def word_cmp)
  note at_sl = inactive_is_terminal [of 1 ?sl exRelist 1 exSeller exSeller]
  note at_sb = inactive_is_terminal [of 1 ?sb exRelist 1 exBuyer exBuyer]
  note at_l = inactive_is_terminal [of 1 exBid exRelist 1 exSeller exSeller]
  note at_b = inactive_is_terminal [of 1 exBid exRelist 1 exBuyer exBuyer]
  note tail = conjunct2 [THEN conjunct2, THEN conjunct2, THEN conjunct2]
  note first_l = at_l [THEN tail, THEN conjunct1, THEN mp, OF hl]
  note first_b = at_b [THEN tail, THEN conjunct2, THEN mp, OF hb]
  have l1: "succeeds (cancelListing exSeller exBid 1)"
    by (rule first_l [THEN conjunct1])
  have b1: "succeeds (cancelBid exBuyer exBid 1)"
    by (rule first_b [THEN conjunct1])
  have l4: "listingActiveMap (runAll ?sl exRelist) 1 = INACTIVE"
    using at_sl [THEN conjunct1] l2 l3 by (simp only: simp_thms)
  have l5: "cancelListing exSeller (runAll ?sl exRelist) 1
      = (Inl (Revert ''Listing is not active''), runAll ?sl exRelist)"
    by (rule first_l [THEN conjunct2, THEN conjunct2])
  have b4: "bidActiveMap (runAll ?sb exRelist) 1 = INACTIVE"
    using at_sb [THEN conjunct2, THEN conjunct1] b2 b3 by (simp only: simp_thms)
  have b5: "cancelBid exBuyer (runAll ?sb exRelist) 1
      = (Inl (Revert ''Bid is not active''), runAll ?sb exRelist)"
    by (rule first_b [THEN conjunct2, THEN conjunct2])
  show ?thesis
    by (intro conjI hl [THEN conjunct1] hl [THEN conjunct2, THEN conjunct1]
        hl [THEN conjunct2, THEN conjunct2, THEN conjunct1]
        hl [THEN conjunct2, THEN conjunct2, THEN conjunct2]
        hb [THEN conjunct2, THEN conjunct1]
        hb [THEN conjunct2, THEN conjunct2, THEN conjunct1]
        hb [THEN conjunct2, THEN conjunct2, THEN conjunct2]
        l1 l2 l3 l4 l5 b1 b2 b3 b4 b5)
qed

subsection \<open>Bounds of the royalty and fee rates\<close>

lemma bps_step:
  "(\<forall>c. collectionRoyaltyBpsMap s c \<le> MAX_ROYALTY_BPS) \<and> platformFeeBps s \<le> MAX_PLATFORM_FEE_BPS \<Longrightarrow>
   execute call env s m = (r, s') \<Longrightarrow>
   (\<forall>c. collectionRoyaltyBpsMap s' c \<le> MAX_ROYALTY_BPS) \<and> platformFeeBps s' \<le> MAX_PLATFORM_FEE_BPS"
  by (cases m)
     (auto simp: listNFT_def cancelListing_def buyNFT_def placeBid_def cancelBid_def
        acceptBid_def registerCollection_def setPlatformFee_def setPlatformFeeRecipient_def
        updateRoyalty_def getListing_def getBid_def getCollectionInfo_def getPlatformInfo_def
        emitEvent_def Let_def
        split: if_splits sum.splits)

lemma bps_reachable:
  "reachable s \<Longrightarrow>
   (\<forall>c. collectionRoyaltyBpsMap s c \<le> MAX_ROYALTY_BPS) \<and> platformFeeBps s \<le> MAX_PLATFORM_FEE_BPS"
proof (induction rule: reachable.induct)
  case (deployed feeRecipient feeBps s)
  then show ?case
    by (auto simp: onDeployment_def emptyStorage_def split: if_splits)
next
  case (called s call env m r s')
  then show ?case using bps_step by blast
qed

lemma bps_frame:
  "(\<forall>c b r. m \<noteq> M_registerCollection c b r \<and> m \<noteq> M_updateRoyalty c b r) \<Longrightarrow>
   collectionRoyaltyBpsMap (snd (execute call env s m)) = collectionRoyaltyBpsMap s"
  by (cases m)
     (auto simp: listNFT_def cancelListing_def buyNFT_def placeBid_def cancelBid_def
        acceptBid_def setPlatformFee_def setPlatformFeeRecipient_def
        getListing_def getBid_def getCollectionInfo_def getPlatformInfo_def
        emitEvent_def Let_def
        split: if_splits sum.splits)

lemma fee_frame:
  "(\<forall>b. m \<noteq> M_setPlatformFee b) \<Longrightarrow>
   platformFeeBps (snd (execute call env s m)) = platformFeeBps s"
  by (cases m)
     (auto simp: listNFT_def cancelListing_def buyNFT_def placeBid_def cancelBid_def
        acceptBid_def registerCollection_def setPlatformFeeRecipient_def
        updateRoyalty_def getListing_def getBid_def getCollectionInfo_def getPlatformInfo_def
        emitEvent_def Let_def
        split: if_splits sum.splits)

text \<open>
  Claim C6. In every reachable storage the stored \<open>royaltyBps\<close> of each collection is
  at most 1000 and the stored platform \<open>feeBps\<close> is at most 500: \<open>registerCollection\<close>
  and \<open>updateRoyalty\<close> reject a rate above 1000 and \<open>setPlatformFee\<close> rejects a rate
  above 500, each leaving the storage as it was, and no other call writes the two
  fields. (The deployment, from which the reachable storages start, stores the initial
  fee under the same bound.)
\<close>

theorem bps_bounds:
  "(reachable s \<longrightarrow>
      unat (collectionRoyaltyBpsMap s collection) \<le> 1000 \<and> unat (platformFeeBps s) \<le> 500) \<and>
   (1000 < unat royaltyBps \<longrightarrow>
      \<not> succeeds (registerCollection env s collection royaltyBps recipient) \<and>
      snd (registerCollection env s collection royaltyBps recipient) = s \<and>
      \<not> succeeds (updateRoyalty env s collection royaltyBps recipient) \<and>
      snd (updateRoyalty env s collection royaltyBps recipient) = s) \<and>
   (500 < unat bps \<longrightarrow>
      \<not> succeeds (setPlatformFee env s bps) \<and> snd (setPlatformFee env s bps) = s) \<and>
   ((\<forall>c b r. m \<noteq> M_registerCollection c b r \<and> m \<noteq> M_updateRoyalty c b r) \<longrightarrow>
      collectionRoyaltyBpsMap (snd (execute call env s m)) = collectionRoyaltyBpsMap s) \<and>
   ((\<forall>b. m \<noteq> M_setPlatformFee b) \<longrightarrow>
      platformFeeBps (snd (execute call env s m)) = platformFeeBps s)"
proof (intro conjI impI)
  assume "reachable s"
  from bps_reachable [OF this]
  show "unat (collectionRoyaltyBpsMap s collection) \<le> 1000"
    and "unat (platformFeeBps s) \<le> 500"
    by (simp_all add: MAX_ROYALTY_BPS_def MAX_PLATFORM_FEE_BPS_def word_le_nat_alt)
next
  assume big: "1000 < unat royaltyBps"
  then have gt: "royaltyBps > MAX_ROYALTY_BPS"
    by (simp add: MAX_ROYALTY_BPS_def word_less_nat_alt)
  show "\<not> succeeds (registerCollection env s collection royaltyBps recipient)"
    using gt by (simp add: registerCollection_def succeeds_def split: sum.splits)
  show "snd (registerCollection env s collection royaltyBps recipient) = s"
    using gt by (simp add: registerCollection_def split: sum.splits)
  show "\<not> succeeds (updateRoyalty env s collection royaltyBps recipient)"
    using gt by (simp add: updateRoyalty_def succeeds_def Let_def split: sum.splits)
  show "snd (updateRoyalty env s collection royaltyBps recipient) = s"
    using gt by (simp add: updateRoyalty_def Let_def split: sum.splits)
next
  assume big: "500 < unat bps"
  then have gt: "bps > MAX_PLATFORM_FEE_BPS"
    by (simp add: MAX_PLATFORM_FEE_BPS_def word_less_nat_alt)
  show "\<not> succeeds (setPlatformFee env s bps)"
    using gt by (simp add: setPlatformFee_def succeeds_def split: sum.splits)
  show "snd (setPlatformFee env s bps) = s"
    using gt by (simp add: setPlatformFee_def split: sum.splits)
next
  assume "\<forall>c b r. m \<noteq> M_registerCollection c b r \<and> m \<noteq> M_updateRoyalty c b r"
  then show "collectionRoyaltyBpsMap (snd (execute call env s m)) = collectionRoyaltyBpsMap s"
    by (rule bps_frame)
next
  assume "\<forall>b. m \<noteq> M_setPlatformFee b"
  then show "platformFeeBps (snd (execute call env s m)) = platformFeeBps s"
    by (rule fee_frame)
qed

theorem bps_bounds_witness:
  "reachable exRegistered \<and>
   unat (collectionRoyaltyBpsMap exRegistered 5) \<le> 1000 \<and>
   unat (platformFeeBps exRegistered) \<le> 500 \<and>
   1000 < unat (1001::u256) \<and>
   \<not> succeeds (registerCollection exAdmin exRegistered 5 1001 12) \<and>
   \<not> succeeds (updateRoyalty exAdmin exRegistered 5 1001 12) \<and>
   500 < unat (501::u256) \<and>
   \<not> succeeds (setPlatformFee exAdmin exRegistered 501) \<and>
   collectionRoyaltyBpsMap (snd (execute exCallOk exAdmin exRegistered (M_setPlatformFee 100)))
     = collectionRoyaltyBpsMap exRegistered \<and>
   platformFeeBps (snd (execute exCallOk exSeller exRegistered (M_listNFT 5 7 1000)))
     = platformFeeBps exRegistered"
proof -
  have h: "1000 < unat (1001::u256)" "500 < unat (501::u256)" by simp_all
  from bps_bounds [of exRegistered 5 1001 exAdmin 12 501 "M_setPlatformFee 100" exCallOk]
    bps_bounds [of exRegistered 5 1001 exSeller 12 501 "M_listNFT 5 7 1000" exCallOk]
    reachable_exRegistered h
  show ?thesis by simp
qed

subsection \<open>Events\<close>

text \<open>
  Claim C5. Every successful mutating call is to emit exactly one domain event. The
  code does not do so for three of the ten: the administrator's \<open>setPlatformFee\<close>,
  \<open>setPlatformFeeRecipient\<close> and \<open>updateRoyalty\<close> calls below succeed and leave the event
  log as it was, whereas \<open>registerCollection\<close>, which writes the same two royalty fields
  as \<open>updateRoyalty\<close>, appends its event.
\<close>

theorem admin_setters_emit_no_event:
  "succeeds (setPlatformFee exAdmin exDeployed 100) \<and>
   events (snd (setPlatformFee exAdmin exDeployed 100)) = events exDeployed \<and>
   succeeds (setPlatformFeeRecipient exAdmin exDeployed 12) \<and>
   events (snd (setPlatformFeeRecipient exAdmin exDeployed 12)) = events exDeployed \<and>
   succeeds (updateRoyalty exAdmin exRegistered 5 300 12) \<and>
   events (snd (updateRoyalty exAdmin exRegistered 5 300 12)) = events exRegistered \<and>
   succeeds (registerCollection exAdmin exRegistered 5 300 12) \<and>
   events (snd (registerCollection exAdmin exRegistered 5 300 12))
     = events exRegistered @ [CollectionRegisteredEvent 5 300]"
  by (simp add: succeeds_def op_defs ex_defs Let_def word_cmp)

subsection \<open>Reading a listing\<close>

lemma listNFT_frame:
  "listNFT call env s c t p = (r, s') \<Longrightarrow>
   (nextListingId s' = nextListingId s \<and> listingCollectionMap s' = listingCollectionMap s \<and>
    listingTokenIdMap s' = listingTokenIdMap s \<and> listingSellerMap s' = listingSellerMap s \<and>
    listingPriceMap s' = listingPriceMap s \<and> listingActiveMap s' = listingActiveMap s) \<or>
   (unat (nextListingId s') = unat (nextListingId s) + 1 \<and>
    listingCollectionMap s' = (listingCollectionMap s)(nextListingId s := addressToU256 c) \<and>
    listingTokenIdMap s' = (listingTokenIdMap s)(nextListingId s := t) \<and>
    listingSellerMap s' = (listingSellerMap s)(nextListingId s := addressToU256 (tx_sender env)) \<and>
    listingPriceMap s' = (listingPriceMap s)(nextListingId s := p) \<and>
    listingActiveMap s' = (listingActiveMap s)(nextListingId s := ACTIVE))"
  by (auto simp: listNFT_def emitEvent_def Let_def dest!: SafeMath_add_Inr
      split: if_splits sum.splits)

lemma listing_frame:
  "\<forall>c t p. m \<noteq> M_listNFT c t p \<Longrightarrow> execute call env s m = (r, s') \<Longrightarrow>
   nextListingId s' = nextListingId s \<and> listingCollectionMap s' = listingCollectionMap s \<and>
   listingTokenIdMap s' = listingTokenIdMap s \<and> listingSellerMap s' = listingSellerMap s \<and>
   listingPriceMap s' = listingPriceMap s \<and>
   (listingActiveMap s' = listingActiveMap s \<or>
    (\<exists>j. listingActiveMap s' = (listingActiveMap s)(j := 0)))"
  by (cases m)
     (auto simp: cancelListing_def buyNFT_def placeBid_def cancelBid_def
        acceptBid_def registerCollection_def setPlatformFee_def setPlatformFeeRecipient_def
        updateRoyalty_def getListing_def getBid_def getCollectionInfo_def getPlatformInfo_def
        emitEvent_def INACTIVE_def Let_def
        split: if_splits sum.splits)

lemma unwritten_step:
  assumes nz: "nextListingId s \<noteq> 0"
    and inv: "i = 0 \<or> nextListingId s \<le> i \<longrightarrow> unwritten s i"
    and ex: "execute call env s m = (r, s')"
  shows "nextListingId s' \<noteq> 0 \<and> (i = 0 \<or> nextListingId s' \<le> i \<longrightarrow> unwritten s' i)"
proof (cases "\<exists>c t p. m = M_listNFT c t p")
  case True
  then obtain c t p where m: "m = M_listNFT c t p" by blast
  from ex m have "listNFT call env s c t p = (r, s')" by simp
  from listNFT_frame [OF this] show ?thesis
  proof
    assume "nextListingId s' = nextListingId s \<and> listingCollectionMap s' = listingCollectionMap s \<and>
      listingTokenIdMap s' = listingTokenIdMap s \<and> listingSellerMap s' = listingSellerMap s \<and>
      listingPriceMap s' = listingPriceMap s \<and> listingActiveMap s' = listingActiveMap s"
    with nz inv show ?thesis by (simp add: unwritten_def)
  next
    assume new: "unat (nextListingId s') = unat (nextListingId s) + 1 \<and>
      listingCollectionMap s' = (listingCollectionMap s)(nextListingId s := addressToU256 c) \<and>
      listingTokenIdMap s' = (listingTokenIdMap s)(nextListingId s := t) \<and>
      listingSellerMap s' = (listingSellerMap s)(nextListingId s := addressToU256 (tx_sender env)) \<and>
      listingPriceMap s' = (listingPriceMap s)(nextListingId s := p) \<and>
      listingActiveMap s' = (listingActiveMap s)(nextListingId s := ACTIVE)"
    then have nz': "nextListingId s' \<noteq> 0"
      by (auto simp: unat_eq_0 [symmetric] simp del: unat_eq_0)
    have "unwritten s' i" if out: "i = 0 \<or> nextListingId s' \<le> i"
    proof -
      from out new nz have ne: "i \<noteq> nextListingId s" and old: "i = 0 \<or> nextListingId s \<le> i"
        by (auto simp: word_le_nat_alt)
      from inv old have "unwritten s i" by blast
      with new ne show ?thesis by (simp add: unwritten_def)
    qed
    with nz' show ?thesis by blast
  qed
next
  case False
  then have "\<forall>c t p. m \<noteq> M_listNFT c t p" by blast
  from listing_frame [OF this ex] nz inv show ?thesis
    by (auto simp: unwritten_def)
qed

lemma unwritten_reachable:
  "reachable s \<Longrightarrow>
   nextListingId s \<noteq> 0 \<and> (i = 0 \<or> nextListingId s \<le> i \<longrightarrow> unwritten s i)"
proof (induction rule: reachable.induct)
  case (deployed feeRecipient feeBps s)
  then show ?case
    by (auto simp: onDeployment_def emptyStorage_def unwritten_def split: if_splits)
next
  case (called s call env m r s')
  then show ?case using unwritten_step [of s i call env m r s'] by blast
qed

text \<open>
  Claim C2, as the code has it. \<open>getListing\<close> never fails: for every storage and every
  id it returns the five stored fields of that id and leaves the storage as it is. For
  an id that is 0 or at least \<open>nextListingId\<close> it is \<open>requireActiveListing\<close> (the check of
  \<open>cancelListing\<close> and \<open>buyNFT\<close>) that fails with \<open>Listing does not exist\<close>, while
  \<open>getListing\<close> returns five zero fields in every reachable storage.
\<close>

theorem getListing_never_fails:
  "getListing s listingId =
     (Inr [U256 (listingCollectionMap s listingId), U256 (listingTokenIdMap s listingId),
           U256 (listingSellerMap s listingId), U256 (listingPriceMap s listingId),
           U256 (listingActiveMap s listingId)], s) \<and>
   (listingId = 0 \<or> nextListingId s \<le> listingId \<longrightarrow>
      requireActiveListing s listingId = Inl (Revert ''Listing does not exist'') \<and>
      (reachable s \<longrightarrow>
         getListing s listingId = (Inr [U256 0, U256 0, U256 0, U256 0, U256 0], s)))"
proof (intro conjI impI)
  show "getListing s listingId =
     (Inr [U256 (listingCollectionMap s listingId), U256 (listingTokenIdMap s listingId),
           U256 (listingSellerMap s listingId), U256 (listingPriceMap s listingId),
           U256 (listingActiveMap s listingId)], s)"
    by (simp add: getListing_def)
next
  assume "listingId = 0 \<or> nextListingId s \<le> listingId"
  then show "requireActiveListing s listingId = Inl (Revert ''Listing does not exist'')"
    by (auto simp: requireActiveListing_def)
next
  assume out: "listingId = 0 \<or> nextListingId s \<le> listingId" and r: "reachable s"
  from unwritten_reachable [OF r, of listingId] out have "unwritten s listingId" by blast
  then show "getListing s listingId = (Inr [U256 0, U256 0, U256 0, U256 0, U256 0], s)"
    by (simp add: getListing_def unwritten_def)
qed

theorem getListing_never_fails_witness:
  "nextListingId exListed \<le> 2 \<and> reachable exListed \<and>
   requireActiveListing exListed 2 = Inl (Revert ''Listing does not exist'') \<and>
   getListing exListed 2 = (Inr [U256 0, U256 0, U256 0, U256 0, U256 0], exListed)"
proof -
  have h: "nextListingId exListed \<le> 2" by (simp add: ex_defs)
  from getListing_never_fails [of exListed 2] h reachable_exListed show ?thesis
    by blast
qed

text \<open>
  Claim C2 as stated fails: with one listing made (\<open>nextListingId = 2\<close>), \<open>getListing\<close>
  returns a field tuple for the ids 0 and 2.
\<close>

theorem getListing_returns_zeros_counterexample:
  "getListing exListed 0 = (Inr [U256 0, U256 0, U256 0, U256 0, U256 0], exListed) \<and>
   nextListingId exListed \<le> 2 \<and>
   getListing exListed 2 = (Inr [U256 0, U256 0, U256 0, U256 0, U256 0], exListed)"
  by (simp add: getListing_def ex_defs)

end
